theory Spec2Isabelle
  imports Main "HOL-Library.Sublist"
begin

section \<open>The schema AST read by \<^verbatim>\<open>src/lib/mapper.ts\<close>\<close>

text \<open>
  The mapper reads GraphQL AST nodes. A directive argument is a value node; the mapper
  reads its \<^verbatim>\<open>.value\<close> (a string for Int, Float, String and Enum nodes, a boolean for
  Boolean nodes, missing for the others) and its \<^verbatim>\<open>.values\<close> (List nodes only).
\<close>

datatype value_node =
    IntValue string
  | FloatValue string
  | StringValue string
  | BooleanValue bool
  | NullValue
  | EnumValue string
  | ListValue "value_node list"
  | ObjectValue "(string \<times> value_node) list"

datatype js_value = JString string | JBoolean bool

fun value_of :: "value_node \<Rightarrow> js_value option" where
  "value_of (IntValue s) = Some (JString s)"
| "value_of (FloatValue s) = Some (JString s)"
| "value_of (StringValue s) = Some (JString s)"
| "value_of (EnumValue s) = Some (JString s)"
| "value_of (BooleanValue b) = Some (JBoolean b)"
| "value_of NullValue = None"
| "value_of (ListValue vs) = None"
| "value_of (ObjectValue fs) = None"

fun values_of :: "value_node \<Rightarrow> value_node list option" where
  "values_of (ListValue vs) = Some vs"
| "values_of v = None"

text \<open>\<^verbatim>\<open>x?.value\<close> on an optional node.\<close>

definition opt_value :: "value_node option \<Rightarrow> js_value option" where
  "opt_value n = (case n of None \<Rightarrow> None | Some v \<Rightarrow> value_of v)"

text \<open>String conversion in a template literal, and truthiness, of a possibly missing value.\<close>

fun to_string :: "js_value option \<Rightarrow> string" where
  "to_string None = ''undefined''"
| "to_string (Some (JString s)) = s"
| "to_string (Some (JBoolean b)) = (if b then ''true'' else ''false'')"

fun truthy :: "js_value option \<Rightarrow> bool" where
  "truthy None = False"
| "truthy (Some (JString s)) = (s \<noteq> [])"
| "truthy (Some (JBoolean b)) = b"

text \<open>A value kept when it is truthy, as in \<^verbatim>\<open>if (v)\<close> and \<^verbatim>\<open>v ? x : undefined\<close>.\<close>

definition if_truthy :: "js_value option \<Rightarrow> js_value option" where
  "if_truthy v = (if truthy v then v else None)"

record directive =
  directive_name :: string
  arguments :: "(string \<times> value_node) list"

datatype type_node = NamedType string | ListType type_node | NonNullType type_node

record field_definition =
  field_name :: string
  field_type :: type_node
  field_description :: "string option"
  field_directives :: "directive list"

record object_type_definition =
  node_name :: string
  node_fields :: "field_definition list option"
  node_directives :: "directive list"

record enum_value_definition =
  enum_value_name :: string
  enum_value_description :: "string option"

text \<open>
  What \<^verbatim>\<open>schema.getType\<close> returns: a named type of one of six kinds. Object, union and
  enum types carry their optional \<^verbatim>\<open>astNode\<close>; a union's AST node has an optional list of
  member type names, an enum's an optional list of value definitions.
\<close>

datatype named_type =
    ScalarType string
  | ObjectType string "object_type_definition option"
  | InterfaceType string
  | UnionType string "string list option option"
  | EnumType string "enum_value_definition list option option"
  | InputObjectType string

type_synonym graphql_schema = "string \<Rightarrow> named_type option"

fun type_name :: "named_type \<Rightarrow> string" where
  "type_name (ScalarType n) = n"
| "type_name (ObjectType n a) = n"
| "type_name (InterfaceType n) = n"
| "type_name (UnionType n a) = n"
| "type_name (EnumType n a) = n"
| "type_name (InputObjectType n) = n"

fun isObjectType :: "named_type \<Rightarrow> bool" where
  "isObjectType (ObjectType n a) = True"
| "isObjectType t = False"

fun isUnionType :: "named_type \<Rightarrow> bool" where
  "isUnionType (UnionType n a) = True"
| "isUnionType t = False"

fun isEnumType :: "named_type \<Rightarrow> bool" where
  "isEnumType (EnumType n a) = True"
| "isEnumType t = False"

section \<open>Helpers imported from \<^verbatim>\<open>./graphql\<close> and \<^verbatim>\<open>./value\<close>\<close>

text \<open>
  Modelled from the spec: the directive resolver of \<^verbatim>\<open>./graphql\<close> (section 4.1 of the
  specification), whose source file is not part of the sources at hand. The holder's
  directive list is scanned for the first directive of the given name, and the argument
  key is looked up within that directive only.
\<close>

definition resolve :: "directive list \<Rightarrow> string \<Rightarrow> string \<Rightarrow> value_node option" where
  "resolve ds dname key =
     (case find (\<lambda>d. directive_name d = dname) ds of
        None \<Rightarrow> None
      | Some d \<Rightarrow> map_of (arguments d) key)"

text \<open>
  Modelled from the spec: \<^verbatim>\<open>findStoryblokFieldValue\<close>, \<^verbatim>\<open>findStoryblokValue\<close> and
  \<^verbatim>\<open>hasDirective\<close> of \<^verbatim>\<open>./graphql\<close>: the resolver at the field directive
  \<^verbatim>\<open>storyblokField\<close>, at the type directive \<^verbatim>\<open>storyblok\<close>, and the test that a
  field carries a directive of a given name.
\<close>

definition findStoryblokFieldValue :: "field_definition \<Rightarrow> string \<Rightarrow> value_node option" where
  "findStoryblokFieldValue field key = resolve (field_directives field) ''storyblokField'' key"

definition findStoryblokValue :: "object_type_definition \<Rightarrow> string \<Rightarrow> value_node option" where
  "findStoryblokValue node key = resolve (node_directives node) ''storyblok'' key"

definition hasDirective :: "field_definition \<Rightarrow> string \<Rightarrow> bool" where
  "hasDirective field dname = (\<exists>d \<in> set (field_directives field). directive_name d = dname)"

text \<open>
  Modelled from the spec: \<^verbatim>\<open>typeName\<close> and \<^verbatim>\<open>switchArray\<close> of \<^verbatim>\<open>./graphql\<close>. A type
  reference is a named type under list-of and required modifiers; \<^verbatim>\<open>typeName\<close> is the
  named type, and \<^verbatim>\<open>switchArray\<close> tells a list reference (handing on the element type)
  from a singular one, looking through the required modifier.
\<close>

fun typeName :: "type_node \<Rightarrow> string" where
  "typeName (NamedType n) = n"
| "typeName (ListType t) = typeName t"
| "typeName (NonNullType t) = typeName t"

fun switchArray :: "type_node \<Rightarrow> (type_node \<Rightarrow> 'a) \<Rightarrow> (type_node \<Rightarrow> 'a) \<Rightarrow> 'a" where
  "switchArray (NonNullType t) ifArray other = switchArray t ifArray other"
| "switchArray (ListType t) ifArray other = ifArray t"
| "switchArray (NamedType n) ifArray other = other (NamedType n)"

text \<open>\<^verbatim>\<open>type.kind === 'NonNullType'\<close>.\<close>

fun isNonNullType :: "type_node \<Rightarrow> bool" where
  "isNonNullType (NonNullType t) = True"
| "isNonNullType t = False"

text \<open>
  Modelled from the spec: the value utilities of \<^verbatim>\<open>./value\<close>. \<^verbatim>\<open>isValue\<close> keeps the
  values that are present, \<^verbatim>\<open>ifValue\<close> maps a function over an optional value, and
  \<^verbatim>\<open>uniqueBy\<close> is the filter predicate that keeps an element when no earlier element
  of the array has the same key (first occurrence wins).
\<close>

definition filter_isValue :: "'a option list \<Rightarrow> 'a list" where
  "filter_isValue xs = List.map_filter (\<lambda>x. x) xs"

definition ifValue :: "'a option \<Rightarrow> ('a \<Rightarrow> 'b) \<Rightarrow> 'b option" where
  "ifValue v f = map_option f v"

fun uniqueBy_from :: "('a \<Rightarrow> 'k) \<Rightarrow> 'k list \<Rightarrow> 'a list \<Rightarrow> 'a list" where
  "uniqueBy_from f seen [] = []"
| "uniqueBy_from f seen (x # xs) =
     (if f x \<in> set seen then uniqueBy_from f seen xs
      else x # uniqueBy_from f (f x # seen) xs)"

definition filter_uniqueBy :: "('a \<Rightarrow> 'k) \<Rightarrow> 'a list \<Rightarrow> 'a list" where
  "filter_uniqueBy f xs = uniqueBy_from f [] xs"

section \<open>The case conversions of the \<^verbatim>\<open>change-case\<close> package\<close>

text \<open>
  The four conversions are functions of an external package; the mapper is modelled
  over any four string functions, passed as a record.
\<close>

record change_case =
  camelCase :: "string \<Rightarrow> string"
  paramCase :: "string \<Rightarrow> string"
  sentenceCase :: "string \<Rightarrow> string"
  snakeCase :: "string \<Rightarrow> string"

section \<open>Values handed to the Terraform generator\<close>

text \<open>
  An option value is either a plain JavaScript value (written out as a quoted literal)
  or \<^verbatim>\<open>arg(value)\<close>, an unquoted reference expression.
\<close>

datatype option_value = Val js_value | Arg string

type_synonym option_entry = "string \<times> option_value"

record CtConfig =
  projectKey :: string
  endpoint :: string
  clientId :: string
  clientSecret :: string
  locale' :: string

definition maybeArg :: "string \<Rightarrow> string list \<Rightarrow> option_value" where
  "maybeArg v extra_prefixes =
     (if \<exists>p \<in> set ([''var.'', ''local.''] @ extra_prefixes). prefix p v
      then Arg v else Val (JString v))"

definition ctConnectionOptions :: "CtConfig \<Rightarrow> option_entry list" where
  "ctConnectionOptions ctConfig =
     [(''endpoint'', maybeArg (endpoint ctConfig) []),
      (''clientId'', maybeArg (clientId ctConfig) []),
      (''clientSecret'', maybeArg (clientSecret ctConfig) []),
      (''locale'', maybeArg (locale' ctConfig) [])]"

definition ctCategoryOptions :: "CtConfig \<Rightarrow> option_entry list" where
  "ctCategoryOptions ctConfig =
     [(''projectKey'', maybeArg (projectKey ctConfig) []),
      (''clientId'', maybeArg (clientId ctConfig) []),
      (''clientSecret'', maybeArg (clientSecret ctConfig) [])]"

section \<open>Component fields\<close>

text \<open>
  Errors thrown by the mapper: \<^verbatim>\<open>new Error(message)\<close>, and the \<^verbatim>\<open>TypeError\<close> the
  runtime raises when a property of a missing value is read.
\<close>

datatype error = Error string | TypeError

definition bind_result :: "error + 'a \<Rightarrow> ('a \<Rightarrow> error + 'b) \<Rightarrow> error + 'b" where
  "bind_result r f = (case r of Inl e \<Rightarrow> Inl e | Inr x \<Rightarrow> f x)"

text \<open>A number of the output: a numeric literal, or \<^verbatim>\<open>Number(v)\<close> of a directive value.\<close>

datatype js_number = NumLit int | NumberOf js_value

record richtext_attrs =
  rtl :: "js_value option"
  max_length :: "js_number option"
  customize_toolbar :: "bool option"
  toolbar :: "string list option"
  allow_target_blank :: "bool option"
  restrict_components :: "bool option"
  component_whitelist :: "string list option"

text \<open>
  One constructor per shape of object literal the mapper returns; the arguments are the
  values of the literal's keys:
  \<^item> \<open>Asset\<close>: \<^verbatim>\<open>type\<close> (\<^verbatim>\<open>asset\<close> or \<^verbatim>\<open>multiasset\<close>), \<^verbatim>\<open>filetypes\<close>;
  \<^item> \<open>Stories\<close>: \<^verbatim>\<open>type\<close> (\<^verbatim>\<open>option\<close> or \<^verbatim>\<open>options\<close>), \<^verbatim>\<open>source\<close>,
    \<^verbatim>\<open>filter_content_type\<close>, \<^verbatim>\<open>folder_slug\<close>, \<^verbatim>\<open>use_uuid\<close>;
  \<^item> \<open>Bloks\<close>: \<^verbatim>\<open>component_whitelist\<close>, \<^verbatim>\<open>restrict_components\<close>, \<^verbatim>\<open>minimum\<close>,
    \<^verbatim>\<open>maximum\<close>;
  \<^item> \<open>EnumOption\<close>: \<^verbatim>\<open>type: 'option'\<close>, \<^verbatim>\<open>options\<close>;
  \<^item> \<open>EnumOptions\<close>: \<^verbatim>\<open>type: 'options'\<close>, \<^verbatim>\<open>options\<close>, \<^verbatim>\<open>minimum\<close>, \<^verbatim>\<open>maximum\<close>;
  \<^item> \<open>Datasource\<close>: \<^verbatim>\<open>type\<close> (\<^verbatim>\<open>option\<close> or \<^verbatim>\<open>options\<close>), \<^verbatim>\<open>datasource_slug\<close>,
    \<^verbatim>\<open>source\<close>, \<^verbatim>\<open>use_uuid\<close>;
  \<^item> \<open>Custom\<close>: \<^verbatim>\<open>field_type\<close>, \<^verbatim>\<open>options\<close> (absent for the SEO field);
  \<^item> \<open>Multilink\<close>: \<^verbatim>\<open>link_scope\<close>, \<^verbatim>\<open>force_link_scope\<close>, \<^verbatim>\<open>restrict_content_types\<close>,
    \<^verbatim>\<open>component_whitelist\<close>, \<^verbatim>\<open>asset_link_type\<close>, \<^verbatim>\<open>allow_target_blank\<close>,
    \<^verbatim>\<open>email_link_type\<close>, \<^verbatim>\<open>show_anchor\<close>;
  \<^item> \<open>Markdown\<close>: \<^verbatim>\<open>rtl\<close>, \<^verbatim>\<open>max_length\<close>, \<^verbatim>\<open>rich_markdown\<close>, \<^verbatim>\<open>customize_toolbar\<close>,
    \<^verbatim>\<open>toolbar\<close>;
  \<^item> \<open>Textarea\<close>: \<^verbatim>\<open>rtl\<close>, \<^verbatim>\<open>max_length\<close>; \<open>Text\<close>: \<^verbatim>\<open>rtl\<close>, \<^verbatim>\<open>max_length\<close>, \<^verbatim>\<open>regex\<close>;
  \<^item> \<open>NumberField\<close>: \<^verbatim>\<open>decimals_value\<close>, \<^verbatim>\<open>steps_value\<close>, \<^verbatim>\<open>min_value\<close>, \<^verbatim>\<open>max_value\<close>;
  \<^item> \<open>Datetime\<close>: \<^verbatim>\<open>disable_time\<close> (absent for a date-time);
  \<^item> \<open>FieldGroup\<close>: \<^verbatim>\<open>type\<close> (\<^verbatim>\<open>section\<close> or \<^verbatim>\<open>tab\<close>), \<^verbatim>\<open>display_name\<close>, \<^verbatim>\<open>keys\<close>.
\<close>

datatype component_field =
    Asset string "string list"
  | Stories string string "string list option" "js_value option" bool
  | Bloks "string list option" bool "js_number option" "js_number option"
  | EnumOption "option_entry list"
  | EnumOptions "option_entry list" "js_number option" "js_number option"
  | Datasource string js_value string bool
  | Custom string "option_entry list option"
  | Multilink "js_value option" "bool option" "bool option" "string list option"
      "bool option" "bool option" "bool option" "bool option"
  | Table
  | Richtext richtext_attrs
  | Markdown "js_value option" "js_number option" bool "bool option" "string list option"
  | Textarea "js_value option" "js_number option"
  | Text "js_value option" "js_number option" "js_value option"
  | BooleanField
  | NumberField "js_number option" "js_number option" "js_number option" "js_number option"
  | Datetime "bool option"
  | FieldGroup string js_value "string list"

text \<open>The \<^verbatim>\<open>type\<close> key of a component field.\<close>

fun field_kind :: "component_field \<Rightarrow> string" where
  "field_kind (Asset t fts) = t"
| "field_kind (Stories t src fct fs uu) = t"
| "field_kind (Bloks cw rc mn mx) = ''bloks''"
| "field_kind (EnumOption os) = ''option''"
| "field_kind (EnumOptions os mn mx) = ''options''"
| "field_kind (Datasource t ds src uu) = t"
| "field_kind (Custom ft os) = ''custom''"
| "field_kind (Multilink ls fls rct cw alt atb elt sa) = ''multilink''"
| "field_kind Table = ''table''"
| "field_kind (Richtext r) = ''richtext''"
| "field_kind (Markdown r ml rm ct tb) = ''markdown''"
| "field_kind (Textarea r ml) = ''textarea''"
| "field_kind (Text r ml rx) = ''text''"
| "field_kind BooleanField = ''boolean''"
| "field_kind (NumberField d s mn mx) = ''number''"
| "field_kind (Datetime dt) = ''datetime''"
| "field_kind (FieldGroup t dn ks) = t"

subsection \<open>Shared pieces of the two classifiers\<close>

text \<open>\<^verbatim>\<open>x || undefined\<close> for a boolean \<open>x\<close>.\<close>

definition or_undefined :: "bool \<Rightarrow> bool option" where
  "or_undefined b = (if b then Some True else None)"

text \<open>
  \<^verbatim>\<open>node?.values\<close> followed by a method call: absent when the node is absent, a
  \<^verbatim>\<open>TypeError\<close> when the node is not a list node.
\<close>

definition list_values :: "value_node option \<Rightarrow> error + value_node list option" where
  "list_values n =
     (case n of
        None \<Rightarrow> Inr None
      | Some v \<Rightarrow> (case values_of v of None \<Rightarrow> Inl TypeError | Some vs \<Rightarrow> Inr (Some vs)))"

definition enum_names :: "value_node list \<Rightarrow> string list" where
  "enum_names vs =
     filter_isValue (map (\<lambda>v. case v of EnumValue s \<Rightarrow> Some s | _ \<Rightarrow> None) vs)"

definition string_names :: "change_case \<Rightarrow> value_node list \<Rightarrow> string list" where
  "string_names cc vs =
     filter_isValue (map (\<lambda>v. case v of StringValue s \<Rightarrow> Some (snakeCase cc s) | _ \<Rightarrow> None) vs)"

definition toolbar_names :: "change_case \<Rightarrow> value_node list \<Rightarrow> string option list" where
  "toolbar_names cc vs = map (\<lambda>v. case v of EnumValue s \<Rightarrow> Some (paramCase cc s) | _ \<Rightarrow> None) vs"

definition filetypes :: "field_definition \<Rightarrow> error + string list" where
  "filetypes field =
     bind_result (list_values (findStoryblokFieldValue field ''filetypes''))
       (\<lambda>vs. Inr (case vs of None \<Rightarrow> [] | Some vs \<Rightarrow> enum_names vs))"

definition number_arg :: "field_definition \<Rightarrow> string \<Rightarrow> js_number option" where
  "number_arg field key = ifValue (opt_value (findStoryblokFieldValue field key)) NumberOf"

text \<open>
  The member types of an object or union type: for a union, the AST nodes of the member
  names that resolve to object types; otherwise the type's own AST node. An entry is
  \<open>None\<close> where the \<^verbatim>\<open>astNode\<close> asserted by \<^verbatim>\<open>!\<close> is missing; reading the directives
  or the name of such an entry raises a \<^verbatim>\<open>TypeError\<close>, whichever of the two results is
  being built (\<open>those\<close> is \<open>None\<close> exactly when an entry is missing).
\<close>

fun member_types :: "graphql_schema \<Rightarrow> named_type \<Rightarrow> object_type_definition option list option" where
  "member_types schema (UnionType n ast) =
     (case ast of
        None \<Rightarrow> None
      | Some None \<Rightarrow> None
      | Some (Some names) \<Rightarrow>
          Some (List.map_filter
            (\<lambda>m. case schema m of Some (ObjectType n' a) \<Rightarrow> Some a | _ \<Rightarrow> None) names))"
| "member_types schema (ObjectType n ast) = Some [ast]"
| "member_types schema t = Some [None]"

definition member_names :: "change_case \<Rightarrow> object_type_definition list \<Rightarrow> string list" where
  "member_names cc ts = map (\<lambda>t. snakeCase cc (node_name t)) ts"

definition enum_options :: "change_case \<Rightarrow> enum_value_definition list \<Rightarrow> option_entry list" where
  "enum_options cc vs =
     map (\<lambda>v. (case enum_value_description v of
                  None \<Rightarrow> sentenceCase cc (enum_value_name v)
                | Some d \<Rightarrow> d,
                Val (JString (enum_value_name v)))) vs"

definition is_root_type :: "object_type_definition \<Rightarrow> bool" where
  "is_root_type node =
     (case opt_value (findStoryblokValue node ''type'') of
        None \<Rightarrow> False
      | Some v \<Rightarrow> v \<in> set [JString ''contentType'', JString ''universal''])"

definition is_content_type :: "object_type_definition \<Rightarrow> bool" where
  "is_content_type node =
     (opt_value (findStoryblokValue node ''type'') = Some (JString ''contentType''))"

subsection \<open>\<^verbatim>\<open>toArrayComponentField\<close>\<close>

definition ctArrayOptions :: "field_definition \<Rightarrow> CtConfig \<Rightarrow> error + component_field" where
  "ctArrayOptions field ctConfig =
     bind_result
       (case findStoryblokFieldValue field ''max'' of
          None \<Rightarrow> Inr None
        | Some v \<Rightarrow>
            (case value_of v of
               None \<Rightarrow> Inl TypeError
             | Some jv \<Rightarrow> Inr (Some (to_string (Some jv)))))
       (\<lambda>max.
          let ctType = opt_value (findStoryblokFieldValue field ''ctType'') in
          Inr (Custom ''sb-commercetools''
            (Some (ctConnectionOptions ctConfig
               @ (case max of
                    None \<Rightarrow> []
                  | Some m \<Rightarrow> if m \<noteq> [] then [(''limit'', Val (JString m))] else [])
               @ (case if_truthy ctType of
                    None \<Rightarrow> []
                  | Some c \<Rightarrow> [(''selectOnly'', Val c)])))))"

text \<open>
  The part of \<^verbatim>\<open>toArrayComponentField\<close> after the asset and object-or-union tests: the
  enum test, the \<^verbatim>\<open>switch\<close> on the type name, and the final \<^verbatim>\<open>throw\<close>.
\<close>

definition toArrayEnumOrScalar ::
  "change_case \<Rightarrow> field_definition \<Rightarrow> type_node \<Rightarrow> named_type option \<Rightarrow> CtConfig option \<Rightarrow>
   error + component_field" where
  "toArrayEnumOrScalar cc field type node ctConfig =
     (case node of
        Some (EnumType n (Some ast)) \<Rightarrow>
          (case ast of
             None \<Rightarrow> Inl TypeError
           | Some vs \<Rightarrow>
               Inr (EnumOptions (enum_options cc vs)
                 (number_arg field ''min'') (number_arg field ''max'')))
      | _ \<Rightarrow>
          if typeName type = ''String'' then
            (case if_truthy (opt_value (findStoryblokFieldValue field ''datasource'')) of
               None \<Rightarrow> Inl (Error (''Datasource is required for type '' @ typeName type))
             | Some datasource \<Rightarrow> Inr (Datasource ''options'' datasource ''internal'' True))
          else if typeName type = ''CtTypeId'' then
            (case ctConfig of
               None \<Rightarrow>
                 Inl (Error (''Commercetools config is required for type '' @ typeName type))
             | Some cfg \<Rightarrow> ctArrayOptions field cfg)
          else Inl (Error (''Unsupported array type '' @ typeName type)))"

definition toArrayReference ::
  "change_case \<Rightarrow> field_definition \<Rightarrow> graphql_schema \<Rightarrow> named_type \<Rightarrow> error + component_field" where
  "toArrayReference cc field schema t =
     (case member_types schema t of
        None \<Rightarrow> Inr (Bloks None True (number_arg field ''min'') (number_arg field ''max''))
      | Some ts \<Rightarrow>
          (case those ts of
             None \<Rightarrow> Inl TypeError
           | Some types \<Rightarrow>
               if list_all is_root_type types then
                 Inr (Stories ''options'' ''internal_stories'' (Some (member_names cc types))
                   (opt_value (findStoryblokFieldValue field ''folder'')) True)
               else
                 Inr (Bloks (Some (member_names cc types)) True
                   (number_arg field ''min'') (number_arg field ''max''))))"

definition toArrayComponentField ::
  "change_case \<Rightarrow> field_definition \<Rightarrow> type_node \<Rightarrow> graphql_schema \<Rightarrow> CtConfig option \<Rightarrow>
   error + component_field" where
  "toArrayComponentField cc field type schema ctConfig =
     (case schema (typeName type) of
        None \<Rightarrow> toArrayEnumOrScalar cc field type None ctConfig
      | Some t \<Rightarrow>
          if type_name t = ''StoryblokAsset'' then
            bind_result (filetypes field) (\<lambda>fts. Inr (Asset ''multiasset'' fts))
          else if isObjectType t \<or> isUnionType t then toArrayReference cc field schema t
          else toArrayEnumOrScalar cc field type (Some t) ctConfig)"

subsection \<open>\<^verbatim>\<open>toComponentField\<close>\<close>

text \<open>The \<^verbatim>\<open>richtext\<close> case of the string formats.\<close>

definition toRichtext :: "change_case \<Rightarrow> field_definition \<Rightarrow> error + component_field" where
  "toRichtext cc field =
     bind_result (list_values (findStoryblokFieldValue field ''blokTypes''))
       (\<lambda>blokTypes.
          let components = map_option (\<lambda>vs. filter_uniqueBy (\<lambda>x. x) (string_names cc vs)) blokTypes
          in
          bind_result (list_values (findStoryblokFieldValue field ''toolbar''))
            (\<lambda>toolbarValues.
               let toolbar =
                     map_option
                       (\<lambda>vs. filter_uniqueBy (\<lambda>x. x)
                          (filter_isValue
                             (toolbar_names cc vs
                                @ [case components of
                                     None \<Rightarrow> None
                                   | Some cs \<Rightarrow> if length cs \<noteq> 0 then Some ''blok'' else None])))
                       toolbarValues
               in
               bind_result (list_values (findStoryblokFieldValue field ''linkFeatures''))
                 (\<lambda>linkFeatures.
                    Inr (Richtext
                      \<lparr>rtl = opt_value (findStoryblokFieldValue field ''rtl''),
                       max_length = number_arg field ''max'',
                       customize_toolbar = or_undefined (toolbar \<noteq> None),
                       toolbar = toolbar,
                       allow_target_blank =
                         (case linkFeatures of
                            None \<Rightarrow> None
                          | Some vs \<Rightarrow> or_undefined (EnumValue ''newTab'' \<in> set vs)),
                       restrict_components = or_undefined (components \<noteq> None),
                       component_whitelist = components\<rparr>))))"

text \<open>The \<^verbatim>\<open>markdown\<close> case of the string formats.\<close>

definition toMarkdown :: "change_case \<Rightarrow> field_definition \<Rightarrow> error + component_field" where
  "toMarkdown cc field =
     bind_result (list_values (findStoryblokFieldValue field ''toolbar''))
       (\<lambda>toolbarValues.
          let toolbar = map_option (\<lambda>vs. filter_isValue (toolbar_names cc vs)) toolbarValues in
          Inr (Markdown (opt_value (findStoryblokFieldValue field ''rtl''))
                 (number_arg field ''max'') True (or_undefined (toolbar \<noteq> None)) toolbar))"

text \<open>
  The \<^verbatim>\<open>case 'String'\<close> of the \<^verbatim>\<open>switch\<close> on the type name: first the part after
  the \<^verbatim>\<open>datasource\<close> test, then the case itself.
\<close>

definition toFormattedString ::
  "change_case \<Rightarrow> field_definition \<Rightarrow> CtConfig option \<Rightarrow> error + component_field" where
  "toFormattedString cc field ctConfig =
     (let ctType = opt_value (findStoryblokFieldValue field ''ctType'');
          stringType = opt_value (findStoryblokFieldValue field ''format'')
      in
      if ctType = Some (JString ''category'') then
        (case ctConfig of
           None \<Rightarrow> Inl (Error (''Commercetools config is required for '' @ field_name field))
         | Some cfg \<Rightarrow> Inr (Custom ''ct-category'' (Some (ctCategoryOptions cfg))))
      else if stringType = Some (JString ''richtext'') then toRichtext cc field
      else if stringType = Some (JString ''markdown'') then toMarkdown cc field
      else if stringType = Some (JString ''textarea'') then
        Inr (Textarea (opt_value (findStoryblokFieldValue field ''rtl'')) (number_arg field ''max''))
      else
        Inr (Text (opt_value (findStoryblokFieldValue field ''rtl'')) (number_arg field ''max'')
               (opt_value (findStoryblokFieldValue field ''regex''))))"

definition toStringField ::
  "change_case \<Rightarrow> field_definition \<Rightarrow> CtConfig option \<Rightarrow> error + component_field" where
  "toStringField cc field ctConfig =
     (case if_truthy (opt_value (findStoryblokFieldValue field ''datasource'')) of
        Some datasource \<Rightarrow> Inr (Datasource ''option'' datasource ''internal'' True)
      | None \<Rightarrow> toFormattedString cc field ctConfig)"

text \<open>The second \<^verbatim>\<open>switch\<close> on the type name, and the final \<^verbatim>\<open>throw\<close>.\<close>

definition toScalarField ::
  "change_case \<Rightarrow> field_definition \<Rightarrow> type_node \<Rightarrow> CtConfig option \<Rightarrow> error + component_field" where
  "toScalarField cc field type ctConfig =
     (if typeName type = ''String'' then toStringField cc field ctConfig
      else if typeName type = ''Boolean'' then Inr BooleanField
      else if typeName type = ''Int'' \<or> typeName type = ''Float'' then
        Inr (NumberField (number_arg field ''decimals'') (number_arg field ''steps'')
               (number_arg field ''min'') (number_arg field ''max''))
      else if typeName type = ''Date'' then Inr (Datetime (Some True))
      else if typeName type = ''DateTime'' then Inr (Datetime None)
      else if typeName type = ''CtTypeId'' then
        (case ctConfig of
           None \<Rightarrow> Inl (Error (''Commercetools config is required for type '' @ typeName type))
         | Some cfg \<Rightarrow>
             let ctType = opt_value (findStoryblokFieldValue field ''ctType'') in
             Inr (Custom ''sb-commercetools''
               (Some (ctConnectionOptions cfg
                  @ [(''limit'', Val (JString ''1''))]
                  @ (case if_truthy ctType of
                       None \<Rightarrow> []
                     | Some c \<Rightarrow> [(''selectOnly'', Val c)])))))
      else Inl (Error (''Unsupported type '' @ typeName type)))"

text \<open>The \<^verbatim>\<open>StoryblokLink\<close> case of the first \<^verbatim>\<open>switch\<close>.\<close>

definition toMultilink :: "change_case \<Rightarrow> field_definition \<Rightarrow> error + component_field" where
  "toMultilink cc field =
     (let folder = opt_value (findStoryblokFieldValue field ''folder'') in
      bind_result (list_values (findStoryblokFieldValue field ''linkFeatures''))
        (\<lambda>lf.
           let linkFeatures = map_option enum_names lf in
           bind_result (list_values (findStoryblokFieldValue field ''blokTypes''))
             (\<lambda>bt.
                let components = map_option (string_names cc) bt;
                    includes = (\<lambda>x. case linkFeatures of
                                        None \<Rightarrow> None
                                      | Some fs \<Rightarrow> or_undefined (x \<in> set fs))
                in
                Inr (Multilink folder (or_undefined (truthy folder))
                       (or_undefined (case components of None \<Rightarrow> False | Some cs \<Rightarrow> length cs \<noteq> 0))
                       components (includes ''assets'') (includes ''newTab'')
                       (includes ''email'') (includes ''anchor'')))))"

text \<open>The object-or-union branch of \<^verbatim>\<open>toComponentField\<close>.\<close>

definition toReference ::
  "change_case \<Rightarrow> field_definition \<Rightarrow> graphql_schema \<Rightarrow> named_type \<Rightarrow> error + component_field" where
  "toReference cc field schema t =
     (case member_types schema t of
        None \<Rightarrow>
          Inr (Bloks None True
                 (Some (NumLit (if isNonNullType (field_type field) then 1 else 0)))
                 (Some (NumLit 1)))
      | Some ts \<Rightarrow>
          (case those ts of
             None \<Rightarrow> Inl TypeError
           | Some types \<Rightarrow>
               if list_all is_content_type types then
                 Inr (Stories ''option'' ''internal_stories'' (Some (member_names cc types))
                   (opt_value (findStoryblokFieldValue field ''folder'')) True)
               else
                 Inr (Bloks (Some (member_names cc types)) True
                   (Some (NumLit (if isNonNullType (field_type field) then 1 else 0)))
                   (Some (NumLit 1)))))"

definition toComponentField ::
  "change_case \<Rightarrow> field_definition \<Rightarrow> type_node \<Rightarrow> graphql_schema \<Rightarrow> CtConfig option \<Rightarrow>
   error + component_field" where
  "toComponentField cc field type schema ctConfig =
     (case schema (typeName type) of
        None \<Rightarrow> toScalarField cc field type ctConfig
      | Some t \<Rightarrow>
          (case t of
             EnumType n (Some ast) \<Rightarrow>
               (case ast of
                  None \<Rightarrow> Inl TypeError
                | Some vs \<Rightarrow> Inr (EnumOption (enum_options cc vs)))
           | _ \<Rightarrow>
               if typeName type = ''StoryblokAsset'' then
                 bind_result (filetypes field) (\<lambda>fts. Inr (Asset ''asset'' fts))
               else if typeName type = ''StoryblokLink'' then toMultilink cc field
               else if typeName type = ''StoryblokSeo'' then Inr (Custom ''seo-metatags'' None)
               else if typeName type = ''StoryblokTable'' then Inr Table
               else if isObjectType t \<or> (case t of UnionType n (Some ast) \<Rightarrow> True | _ \<Rightarrow> False)
               then toReference cc field schema t
               else toScalarField cc field type ctConfig))"

section \<open>\<^verbatim>\<open>toSchema\<close>\<close>

text \<open>
  A value of the schema mapping. For an ordinary field it is the object literal of
  lines 106 to 130: the seven keys below, then the keys of the component field spread
  over them. No component field a classifier returns has one of the seven keys, so the
  spread overwrites none of them and the component field is kept as one more component.
  For a section or tab it is the position and the spread field group.
\<close>

record schema_field =
  position :: nat
  translatable :: "js_value option"
  default_value :: "js_value option"
  no_translate :: "js_value option"
  display_name :: js_value
  required :: bool
  description :: "string option"
  component :: component_field

datatype schema_value = FieldValue schema_field | GroupValue nat component_field

fun position_of :: "schema_value \<Rightarrow> nat" where
  "position_of (FieldValue f) = position f"
| "position_of (GroupValue p g) = p"

type_synonym schema_entry = "string \<times> schema_value"

definition getUniqueDirectiveProps :: "object_type_definition \<Rightarrow> string \<Rightarrow> js_value list option" where
  "getUniqueDirectiveProps node directiveProp =
     map_option
       (\<lambda>fs.
          filter_isValue
            (filter_uniqueBy (\<lambda>x. x)
               (map (\<lambda>field. opt_value (findStoryblokFieldValue field directiveProp)) fs)))
       (node_fields node)"

definition fields_or_empty :: "object_type_definition \<Rightarrow> field_definition list" where
  "fields_or_empty node = (case node_fields node of None \<Rightarrow> [] | Some fs \<Rightarrow> fs)"

definition toFieldGroupComponentField ::
  "change_case \<Rightarrow> object_type_definition \<Rightarrow> string \<Rightarrow> js_value \<Rightarrow> component_field" where
  "toFieldGroupComponentField cc node directiveProp name =
     FieldGroup directiveProp name
       (map field_name
          (filter (\<lambda>field. opt_value (findStoryblokFieldValue field directiveProp) = Some name)
             (fields_or_empty node))
        @ (if directiveProp = ''tab'' then
             filter_uniqueBy (\<lambda>x. x)
               (map (\<lambda>name. camelCase cc (''section '' @ to_string name))
                  (map (\<lambda>field. opt_value (findStoryblokFieldValue field ''section''))
                     (filter
                        (\<lambda>field. opt_value (findStoryblokFieldValue field ''tab'') = Some name
                                  \<and> findStoryblokFieldValue field ''section'' \<noteq> None)
                        (fields_or_empty node))))
           else []))"

fun traverse :: "('a \<Rightarrow> error + 'b) \<Rightarrow> 'a list \<Rightarrow> error + 'b list" where
  "traverse f [] = Inr []"
| "traverse f (x # xs) =
     bind_result (f x) (\<lambda>y. bind_result (traverse f xs) (\<lambda>ys. Inr (y # ys)))"

text \<open>
  The \<^verbatim>\<open>switchArray\<close> expression of lines 125 to 129: a list field goes to
  \<^verbatim>\<open>toArrayComponentField\<close> with its element type, any other to \<^verbatim>\<open>toComponentField\<close>.
\<close>

definition classifyField ::
  "change_case \<Rightarrow> field_definition \<Rightarrow> graphql_schema \<Rightarrow> CtConfig option \<Rightarrow> error + component_field" where
  "classifyField cc field schema ctConfig =
     switchArray (field_type field)
       (\<lambda>subType. toArrayComponentField cc field subType schema ctConfig)
       (\<lambda>type. toComponentField cc field type schema ctConfig)"

definition toFieldEntry ::
  "change_case \<Rightarrow> graphql_schema \<Rightarrow> CtConfig option \<Rightarrow> nat \<times> field_definition \<Rightarrow> error + schema_entry" where
  "toFieldEntry cc schema ctConfig pf =
     (case pf of (index, field) \<Rightarrow>
        bind_result (classifyField cc field schema ctConfig)
          (\<lambda>c. Inr (field_name field,
             FieldValue
               \<lparr>position = index,
                translatable = opt_value (findStoryblokFieldValue field ''translatable''),
                default_value = opt_value (findStoryblokFieldValue field ''default''),
                no_translate = opt_value (findStoryblokFieldValue field ''excludeFromExport''),
                display_name =
                  (case opt_value (findStoryblokFieldValue field ''displayName'') of
                     None \<Rightarrow> JString (sentenceCase cc (field_name field))
                   | Some v \<Rightarrow> v),
                required = isNonNullType (field_type field),
                description = field_description field,
                component = c\<rparr>)))"

text \<open>The three parts of the entry array: normal fields, sections, tabs.\<close>

definition normalFields ::
  "change_case \<Rightarrow> object_type_definition \<Rightarrow> graphql_schema \<Rightarrow> CtConfig option \<Rightarrow>
   error + schema_entry list" where
  "normalFields cc node schema ctConfig =
     (case node_fields node of
        None \<Rightarrow> Inr []
      | Some fs \<Rightarrow>
          traverse (toFieldEntry cc schema ctConfig)
            (List.enumerate 0 (filter (\<lambda>field. hasDirective field ''storyblokField'') fs)))"

definition fields_length :: "object_type_definition \<Rightarrow> nat" where
  "fields_length node = (case node_fields node of None \<Rightarrow> 0 | Some fs \<Rightarrow> length fs)"

definition sections :: "change_case \<Rightarrow> object_type_definition \<Rightarrow> schema_entry list" where
  "sections cc node =
     (case getUniqueDirectiveProps node ''section'' of
        None \<Rightarrow> []
      | Some names \<Rightarrow>
          map (\<lambda>(index, name).
                 (camelCase cc (''section '' @ to_string (Some name)),
                  GroupValue (index + fields_length node)
                    (toFieldGroupComponentField cc node ''section'' name)))
            (List.enumerate 0 names))"

definition tabs :: "change_case \<Rightarrow> object_type_definition \<Rightarrow> schema_entry list" where
  "tabs cc node =
     (case getUniqueDirectiveProps node ''tab'' of
        None \<Rightarrow> []
      | Some names \<Rightarrow>
          map (\<lambda>(index, name).
                 (camelCase cc (''tab '' @ to_string (Some name)),
                  GroupValue
                    (index
                       + (case getUniqueDirectiveProps node ''section'' of
                            None \<Rightarrow> 0
                          | Some ss \<Rightarrow> length ss)
                       + fields_length node)
                    (toFieldGroupComponentField cc node ''tab'' name)))
            (List.enumerate 0 names))"

text \<open>
  \<^verbatim>\<open>Object.fromEntries\<close>: a key written again keeps its place in the key order and
  takes the later value.
\<close>

fun set_entry :: "string \<Rightarrow> 'v \<Rightarrow> (string \<times> 'v) list \<Rightarrow> (string \<times> 'v) list" where
  "set_entry k v [] = [(k, v)]"
| "set_entry k v ((k', v') # m) = (if k' = k then (k, v) # m else (k', v') # set_entry k v m)"

definition fromEntries :: "(string \<times> 'v) list \<Rightarrow> (string \<times> 'v) list" where
  "fromEntries es = foldl (\<lambda>m (k, v). set_entry k v m) [] es"

definition toSchema ::
  "change_case \<Rightarrow> object_type_definition \<Rightarrow> graphql_schema \<Rightarrow> CtConfig option \<Rightarrow>
   error + schema_entry list" where
  "toSchema cc node schema ctConfig =
     bind_result (normalFields cc node schema ctConfig)
       (\<lambda>es. Inr (fromEntries (es @ sections cc node @ tabs cc node)))"

section \<open>The case conversions on ASCII strings\<close>

text \<open>
  The conversions of \<^verbatim>\<open>change-case\<close> on ASCII input, used wherever the mapper is run on
  a concrete schema. The package splits its input into words: at every run of characters
  that are not letters or digits, between a lower-case letter or digit and an upper-case
  letter, and between two upper-case letters when a lower-case letter follows the
  second. Empty words are dropped. \<^verbatim>\<open>snakeCase\<close> and \<^verbatim>\<open>paramCase\<close> join the lower-cased
  words with \<^verbatim>\<open>_\<close> and \<^verbatim>\<open>-\<close>; \<^verbatim>\<open>sentenceCase\<close> joins them with a space and
  capitalises the first; \<^verbatim>\<open>camelCase\<close> lower-cases the first word, capitalises the
  others (a word starting with a digit gets a \<^verbatim>\<open>_\<close> in front) and joins them with
  nothing.
\<close>

definition upper_letters :: string where
  "upper_letters = ''ABCDEFGHIJKLMNOPQRSTUVWXYZ''"

definition lower_letters :: string where
  "lower_letters = ''abcdefghijklmnopqrstuvwxyz''"

definition digit_chars :: string where
  "digit_chars = ''0123456789''"

definition is_upper :: "char \<Rightarrow> bool" where
  "is_upper c = (c \<in> set upper_letters)"

definition is_lower :: "char \<Rightarrow> bool" where
  "is_lower c = (c \<in> set lower_letters)"

definition is_digit :: "char \<Rightarrow> bool" where
  "is_digit c = (c \<in> set digit_chars)"

definition to_lower :: "char \<Rightarrow> char" where
  "to_lower c = (case map_of (zip upper_letters lower_letters) c of None \<Rightarrow> c | Some l \<Rightarrow> l)"

definition to_upper :: "char \<Rightarrow> char" where
  "to_upper c = (case map_of (zip lower_letters upper_letters) c of None \<Rightarrow> c | Some u \<Rightarrow> u)"

fun words_from :: "string \<Rightarrow> string \<Rightarrow> string list" where
  "words_from cur [] = [cur]"
| "words_from cur (c # cs) =
     (if \<not> (is_upper c \<or> is_lower c \<or> is_digit c) then cur # words_from [] cs
      else if cur \<noteq> [] \<and> is_upper c \<and>
              (is_lower (last cur) \<or> is_digit (last cur) \<or>
               (is_upper (last cur) \<and> (case cs of [] \<Rightarrow> False | d # ds \<Rightarrow> is_lower d)))
      then cur # words_from [c] cs
      else words_from (cur @ [c]) cs)"

definition words_of :: "string \<Rightarrow> string list" where
  "words_of s = filter (\<lambda>w. w \<noteq> []) (words_from [] s)"

definition join :: "string \<Rightarrow> string list \<Rightarrow> string" where
  "join d ws = (case ws of [] \<Rightarrow> [] | w # rest \<Rightarrow> w @ concat (map (\<lambda>x. d @ x) rest))"

definition capitalised :: "string \<Rightarrow> string" where
  "capitalised w = (case w of [] \<Rightarrow> [] | c # cs \<Rightarrow> to_upper c # map to_lower cs)"

definition pascal_word :: "string \<Rightarrow> string" where
  "pascal_word w =
     (case w of
        [] \<Rightarrow> []
      | c # cs \<Rightarrow> if is_digit c then CHR ''_'' # c # map to_lower cs else capitalised w)"

definition ascii_case :: change_case where
  "ascii_case =
     \<lparr>camelCase = (\<lambda>s. case words_of s of
                            [] \<Rightarrow> []
                          | w # ws \<Rightarrow> map to_lower w @ concat (map pascal_word ws)),
      paramCase = (\<lambda>s. join ''-'' (map (map to_lower) (words_of s))),
      sentenceCase = (\<lambda>s. case words_of s of
                               [] \<Rightarrow> []
                             | w # ws \<Rightarrow> join '' '' (capitalised w # map (map to_lower) ws)),
      snakeCase = (\<lambda>s. join ''_'' (map (map to_lower) (words_of s)))\<rparr>"

section \<open>Predicates and accessors used in the statements\<close>

text \<open>
  The referenced named type resolves to nothing in the graph, or to a type that is not an
  enum, object or union type and is not named \<^verbatim>\<open>StoryblokAsset\<close>.
\<close>

definition unmapped_in_graph :: "graphql_schema \<Rightarrow> type_node \<Rightarrow> bool" where
  "unmapped_in_graph schema type =
     (case schema (typeName type) of
        None \<Rightarrow> True
      | Some t \<Rightarrow>
          type_name t \<noteq> ''StoryblokAsset'' \<and> \<not> isObjectType t \<and> \<not> isUnionType t \<and> \<not> isEnumType t)"

text \<open>The numbers of synthesized section groups and tab groups of a type definition.\<close>

definition section_count :: "object_type_definition \<Rightarrow> nat" where
  "section_count node =
     (case getUniqueDirectiveProps node ''section'' of None \<Rightarrow> 0 | Some ss \<Rightarrow> length ss)"

definition tab_count :: "object_type_definition \<Rightarrow> nat" where
  "tab_count node =
     (case getUniqueDirectiveProps node ''tab'' of None \<Rightarrow> 0 | Some ss \<Rightarrow> length ss)"

text \<open>A directive argument that is present and is not a list node.\<close>

definition present_not_list :: "value_node option \<Rightarrow> bool" where
  "present_not_list n = (case n of None \<Rightarrow> False | Some v \<Rightarrow> values_of v = None)"

fun group_keys :: "component_field \<Rightarrow> string list" where
  "group_keys (FieldGroup t dn ks) = ks"
| "group_keys c = []"

section \<open>Concrete schemas\<close>

text \<open>A field carrying \<^verbatim>\<open>@storyblokField(args)\<close>, and a type carrying \<^verbatim>\<open>@storyblok(args)\<close>.\<close>

definition sb_field :: "string \<Rightarrow> type_node \<Rightarrow> (string \<times> value_node) list \<Rightarrow> field_definition" where
  "sb_field n t args =
     \<lparr>field_name = n, field_type = t, field_description = None,
      field_directives = [\<lparr>directive_name = ''storyblokField'', arguments = args\<rparr>]\<rparr>"

definition sb_type :: "string \<Rightarrow> (string \<times> value_node) list \<Rightarrow> field_definition list \<Rightarrow> object_type_definition" where
  "sb_type n args fs =
     \<lparr>node_name = n, node_fields = Some fs,
      node_directives = [\<lparr>directive_name = ''storyblok'', arguments = args\<rparr>]\<rparr>"

text \<open>
  \<^verbatim>\<open>type Article @storyblok(type: universal)\<close>, \<^verbatim>\<open>type Landing @storyblok(type: universal)\<close>,
  \<^verbatim>\<open>union Page = Article | Landing\<close>, the built-in scalar \<^verbatim>\<open>String\<close> and the scalar
  \<^verbatim>\<open>CtTypeId\<close>.
\<close>

definition universal_schema :: graphql_schema where
  "universal_schema =
     map_of
       [(''Article'', ObjectType ''Article'' (Some (sb_type ''Article'' [(''type'', EnumValue ''universal'')] []))),
        (''Landing'', ObjectType ''Landing'' (Some (sb_type ''Landing'' [(''type'', EnumValue ''universal'')] []))),
        (''Page'', UnionType ''Page'' (Some (Some [''Article'', ''Landing'']))),
        (''String'', ScalarType ''String''),
        (''CtTypeId'', ScalarType ''CtTypeId'')]"

text \<open>\<^verbatim>\<open>page: Page @storyblokField\<close> and \<^verbatim>\<open>pages: [Page] @storyblokField\<close>.\<close>

definition page_field :: field_definition where
  "page_field = sb_field ''page'' (NamedType ''Page'') []"

definition pages_field :: field_definition where
  "pages_field = sb_field ''pages'' (ListType (NamedType ''Page'')) []"

text \<open>
  \<^verbatim>\<open>type Card { title: String! @storyblokField(section: "Basics")  internalId: ID }\<close>:
  the second field carries no directive, and its type \<^verbatim>\<open>ID\<close> has no mapping.
\<close>

definition title_field :: field_definition where
  "title_field =
     sb_field ''title'' (NonNullType (NamedType ''String'')) [(''section'', StringValue ''Basics'')]"

definition internalId_field :: field_definition where
  "internalId_field =
     \<lparr>field_name = ''internalId'', field_type = NamedType ''ID'',
      field_description = None, field_directives = []\<rparr>"

definition card_type :: object_type_definition where
  "card_type = sb_type ''Card'' [] [title_field, internalId_field]"

text \<open>
  \<^verbatim>\<open>type Profile { name: String @storyblokField(tab: "Info")
  bio: String @storyblokField(tab: "Info", section: "Basics") }\<close>.
\<close>

definition name_field :: field_definition where
  "name_field = sb_field ''name'' (NamedType ''String'') [(''tab'', StringValue ''Info'')]"

definition bio_field :: field_definition where
  "bio_field =
     sb_field ''bio'' (NamedType ''String'')
       [(''tab'', StringValue ''Info''), (''section'', StringValue ''Basics'')]"

definition profile_type :: object_type_definition where
  "profile_type = sb_type ''Profile'' [] [name_field, bio_field]"

text \<open>\<^verbatim>\<open>colors: [String] @storyblokField(datasource: "colors")\<close>, and a list of \<^verbatim>\<open>Int\<close>.\<close>

definition colors_field :: field_definition where
  "colors_field =
     sb_field ''colors'' (ListType (NamedType ''String'')) [(''datasource'', StringValue ''colors'')]"

definition numbers_field :: field_definition where
  "numbers_field = sb_field ''numbers'' (ListType (NamedType ''Int'')) []"

text \<open>\<^verbatim>\<open>product: CtTypeId @storyblokField\<close> and \<^verbatim>\<open>products: [CtTypeId] @storyblokField\<close>.\<close>

definition product_field :: field_definition where
  "product_field = sb_field ''product'' (NamedType ''CtTypeId'') []"

definition products_field :: field_definition where
  "products_field = sb_field ''products'' (ListType (NamedType ''CtTypeId'')) []"

text \<open>
  \<^verbatim>\<open>body: String @storyblokField(format: "richtext", blokTypes: ["Teaser"])\<close>, and the same
  field with \<^verbatim>\<open>toolbar: [bold, italic]\<close>.
\<close>

definition body_field :: field_definition where
  "body_field =
     sb_field ''body'' (NamedType ''String'')
       [(''format'', StringValue ''richtext''), (''blokTypes'', ListValue [StringValue ''Teaser''])]"

definition body_toolbar_field :: field_definition where
  "body_toolbar_field =
     sb_field ''body'' (NamedType ''String'')
       [(''format'', StringValue ''richtext''), (''blokTypes'', ListValue [StringValue ''Teaser'']),
        (''toolbar'', ListValue [EnumValue ''bold'', EnumValue ''italic''])]"

text \<open>The same field with \<^verbatim>\<open>linkFeatures: newTab\<close>, an enum value where a list is read.\<close>

definition body_links_field :: field_definition where
  "body_links_field =
     sb_field ''body'' (NamedType ''String'')
       [(''format'', StringValue ''richtext''), (''blokTypes'', ListValue [StringValue ''Teaser'']),
        (''linkFeatures'', EnumValue ''newTab'')]"

text \<open>
  \<^verbatim>\<open>type Clash { sectionBasics: Boolean! @storyblokField
  a: String @storyblokField(section: "Basics") }\<close>: the first field is named like the key
  of the section group.
\<close>

definition flag_field :: field_definition where
  "flag_field = sb_field ''sectionBasics'' (NonNullType (NamedType ''Boolean'')) []"

definition a_field :: field_definition where
  "a_field = sb_field ''a'' (NamedType ''String'') [(''section'', StringValue ''Basics'')]"

definition clash_type :: object_type_definition where
  "clash_type = sb_type ''Clash'' [] [flag_field, a_field]"

definition demo_config :: CtConfig where
  "demo_config =
     \<lparr>projectKey = ''shop'', endpoint = ''var.ct_endpoint'', clientId = ''local.client_id'',
      clientSecret = ''s3cret'', locale' = ''en-US''\<rparr>"

section \<open>Auxiliary lemmas\<close>

lemma bind_result_simps [simp]:
  "bind_result (Inr x) f = f x" "bind_result (Inl e) f = Inl e"
  by (simp_all add: bind_result_def)

subsection \<open>Types the graph does not map\<close>

lemma array_unmapped_falls_through:
  "unmapped_in_graph schema type \<Longrightarrow>
   toArrayComponentField cc field type schema ctConfig =
   toArrayEnumOrScalar cc field type (schema (typeName type)) ctConfig"
  by (auto simp: unmapped_in_graph_def toArrayComponentField_def split: option.splits)

lemma array_unmapped_switch:
  assumes "unmapped_in_graph schema type"
  shows "toArrayEnumOrScalar cc field type (schema (typeName type)) ctConfig =
     (if typeName type = ''String'' then
        (case if_truthy (opt_value (findStoryblokFieldValue field ''datasource'')) of
           None \<Rightarrow> Inl (Error (''Datasource is required for type '' @ typeName type))
         | Some datasource \<Rightarrow> Inr (Datasource ''options'' datasource ''internal'' True))
      else if typeName type = ''CtTypeId'' then
        (case ctConfig of
           None \<Rightarrow> Inl (Error (''Commercetools config is required for type '' @ typeName type))
         | Some cfg \<Rightarrow> ctArrayOptions field cfg)
      else Inl (Error (''Unsupported array type '' @ typeName type)))"
  using assms
  by (cases "schema (typeName type)")
     (auto simp: unmapped_in_graph_def toArrayEnumOrScalar_def split: named_type.splits option.splits)

lemma array_unmapped:
  assumes "unmapped_in_graph schema type"
  shows "toArrayComponentField cc field type schema ctConfig =
     (if typeName type = ''String'' then
        (case if_truthy (opt_value (findStoryblokFieldValue field ''datasource'')) of
           None \<Rightarrow> Inl (Error (''Datasource is required for type '' @ typeName type))
         | Some datasource \<Rightarrow> Inr (Datasource ''options'' datasource ''internal'' True))
      else if typeName type = ''CtTypeId'' then
        (case ctConfig of
           None \<Rightarrow> Inl (Error (''Commercetools config is required for type '' @ typeName type))
         | Some cfg \<Rightarrow> ctArrayOptions field cfg)
      else Inl (Error (''Unsupported array type '' @ typeName type)))"
  using array_unmapped_falls_through [OF assms] array_unmapped_switch [OF assms]
  by simp

lemma singular_unmapped:
  assumes "unmapped_in_graph schema type"
    and "typeName type \<notin> {''StoryblokAsset'', ''StoryblokLink'', ''StoryblokSeo'', ''StoryblokTable''}"
  shows "toComponentField cc field type schema ctConfig = toScalarField cc field type ctConfig"
  using assms
  by (cases "schema (typeName type)")
     (auto simp: unmapped_in_graph_def toComponentField_def split: named_type.splits option.splits)

lemma switchArray_cases:
  "\<exists>sub. typeName sub = typeName t \<and> (switchArray t f g = f sub \<or> switchArray t f g = g sub)"
proof (induction t)
  case (NamedType n)
  have "typeName (NamedType n) = typeName (NamedType n) \<and>
        switchArray (NamedType n) f g = g (NamedType n)"
    by simp
  then show ?case by blast
next
  case (ListType t)
  have "typeName t = typeName (ListType t) \<and> switchArray (ListType t) f g = f t"
    by simp
  then show ?case by blast
next
  case (NonNullType t)
  then show ?case by simp
qed

lemma unmapped_typeName:
  "typeName a = typeName b \<Longrightarrow> unmapped_in_graph schema a = unmapped_in_graph schema b"
  by (simp add: unmapped_in_graph_def)

subsection \<open>First-occurrence filtering\<close>

lemma uniqueBy_from_set: "set (uniqueBy_from (\<lambda>x. x) seen xs) = set xs - set seen"
  by (induction xs arbitrary: seen) auto

lemma uniqueBy_from_last:
  "b \<notin> set seen \<Longrightarrow> b \<notin> set xs \<Longrightarrow> last (uniqueBy_from (\<lambda>x. x) seen (xs @ [b])) = b"
proof (induction xs arbitrary: seen)
  case Nil
  then show ?case by simp
next
  case (Cons x xs)
  have ne: "uniqueBy_from (\<lambda>x. x) s (xs @ [b]) \<noteq> []" if "b \<notin> set s" for s
  proof -
    have "b \<in> set (uniqueBy_from (\<lambda>x. x) s (xs @ [b]))"
      using that by (simp add: uniqueBy_from_set)
    then show ?thesis by auto
  qed
  show ?case
  proof (cases "x \<in> set seen")
    case True
    then show ?thesis using Cons by simp
  next
    case False
    have b: "b \<notin> set (x # seen)" using Cons.prems by auto
    show ?thesis using False Cons.IH[OF b] Cons.prems ne[OF b] by simp
  qed
qed

lemma filter_isValue_append: "filter_isValue (xs @ ys) = filter_isValue xs @ filter_isValue ys"
  by (simp add: filter_isValue_def List.map_filter_def)

lemma filter_isValue_single: "filter_isValue [Some x] = [x]" "filter_isValue [None] = []"
  by (simp_all add: filter_isValue_def List.map_filter_simps)

lemma filter_uniqueBy_nonempty: "xs \<noteq> [] \<Longrightarrow> filter_uniqueBy (\<lambda>x. x) xs \<noteq> []"
  by (cases xs) (simp_all add: filter_uniqueBy_def)

subsection \<open>The entries of the normal fields\<close>

lemma traverse_all2: "traverse f xs = Inr ys \<Longrightarrow> list_all2 (\<lambda>x y. f x = Inr y) xs ys"
proof (induction xs arbitrary: ys)
  case Nil
  then show ?case by simp
next
  case (Cons x xs)
  then show ?case
    by (auto simp: bind_result_def split: sum.splits)
qed

lemma toFieldEntry_Inr:
  "toFieldEntry cc schema ctConfig (i, field) = Inr e \<Longrightarrow>
   fst e = field_name field \<and> position_of (snd e) = i \<and>
   (\<exists>a. snd e = FieldValue a \<and> required a = isNonNullType (field_type field))"
  by (auto simp: toFieldEntry_def bind_result_def split: sum.splits)

lemma normalFields_all2:
  assumes "normalFields cc node schema ctConfig = Inr es"
  shows "list_all2 (\<lambda>p e. toFieldEntry cc schema ctConfig p = Inr e)
     (List.enumerate 0 (filter (\<lambda>f. hasDirective f ''storyblokField'') (fields_or_empty node))) es"
  using assms
  by (cases "node_fields node") (auto simp: normalFields_def fields_or_empty_def dest: traverse_all2)

subsection \<open>Positions of the entry array\<close>

text \<open>
  The entries handed to \<^verbatim>\<open>Object.fromEntries\<close> carry the positions \<open>0, \<dots>, k - 1\<close> for the
  \<open>k\<close> fields that pass the directive filter, then \<open>n, \<dots>, n + s + t - 1\<close> for the \<open>s\<close>
  sections and \<open>t\<close> tabs, where \<open>n\<close> counts all declared fields.
\<close>

lemma normalFields_positions:
  assumes "normalFields cc node schema ctConfig = Inr es"
  shows "map (\<lambda>e. position_of (snd e)) es =
    [0..<length (filter (\<lambda>f. hasDirective f ''storyblokField'') (fields_or_empty node))]"
proof -
  let ?kept = "filter (\<lambda>f. hasDirective f ''storyblokField'') (fields_or_empty node)"
  have "list_all2 (\<lambda>p e. fst p = position_of (snd e)) (List.enumerate 0 ?kept) es"
    using normalFields_all2 [OF assms]
    by (rule list_all2_mono) (auto dest: toFieldEntry_Inr)
  then have "list_all2 (\<lambda>x y. x = y) (map fst (List.enumerate 0 ?kept)) (map (\<lambda>e. position_of (snd e)) es)"
    by (simp only: list_all2_map1 list_all2_map2)
  then have "map fst (List.enumerate 0 ?kept) = map (\<lambda>e. position_of (snd e)) es"
    by (simp only: list_all2_eq [symmetric])
  then show ?thesis by simp
qed

lemma positions_enumerate:
  assumes "\<And>i x. position_of (snd (f (i, x))) = i + d"
  shows "map (\<lambda>e. position_of (snd e)) (map f (List.enumerate 0 xs)) = [d..<d + length xs]"
proof -
  have "map (\<lambda>e. position_of (snd e)) (map f (List.enumerate 0 xs))
      = map (\<lambda>p. position_of (snd (f p))) (List.enumerate 0 xs)"
    by (simp add: comp_def)
  also have "\<dots> = map (\<lambda>p. fst p + d) (List.enumerate 0 xs)"
    by (rule map_cong) (auto simp: assms)
  also have "\<dots> = map (\<lambda>i. i + d) (map fst (List.enumerate 0 xs))"
    by (simp only: map_map comp_def)
  also have "\<dots> = map (\<lambda>i. i + d) [0..<length xs]"
    by simp
  also have "\<dots> = [d..<d + length xs]"
    by (simp add: map_add_upt add.commute)
  finally show ?thesis .
qed

lemma sections_positions:
  "map (\<lambda>e. position_of (snd e)) (sections cc node) =
     [fields_length node..<fields_length node + section_count node]"
proof (cases "getUniqueDirectiveProps node ''section''")
  case None
  then show ?thesis by (simp add: sections_def section_count_def)
next
  case (Some names)
  have eq: "sections cc node =
    map (\<lambda>(index, name).
           (camelCase cc (''section '' @ to_string (Some name)),
            GroupValue (index + fields_length node)
              (toFieldGroupComponentField cc node ''section'' name)))
      (List.enumerate 0 names)"
    by (simp only: sections_def Some option.case)
  have n: "section_count node = length names"
    by (simp only: section_count_def Some option.case)
  show ?thesis
    unfolding eq n by (rule positions_enumerate) simp
qed

lemma tabs_positions:
  "map (\<lambda>e. position_of (snd e)) (tabs cc node) =
     [section_count node + fields_length node..<section_count node + fields_length node + tab_count node]"
proof (cases "getUniqueDirectiveProps node ''tab''")
  case None
  then show ?thesis by (simp add: tabs_def tab_count_def)
next
  case (Some names)
  have eq: "tabs cc node =
    map (\<lambda>(index, name).
           (camelCase cc (''tab '' @ to_string (Some name)),
            GroupValue (index + section_count node + fields_length node)
              (toFieldGroupComponentField cc node ''tab'' name)))
      (List.enumerate 0 names)"
    by (simp only: tabs_def Some option.case section_count_def)
  have n: "tab_count node = length names"
    by (simp only: tab_count_def Some option.case)
  show ?thesis
    unfolding eq n by (rule positions_enumerate) (simp add: add.assoc)
qed

lemma entry_positions:
  assumes "normalFields cc node schema ctConfig = Inr es"
  shows "map (\<lambda>e. position_of (snd e)) (es @ sections cc node @ tabs cc node) =
     [0..<length (filter (\<lambda>f. hasDirective f ''storyblokField'') (fields_or_empty node))]
     @ [fields_length node..<fields_length node + section_count node + tab_count node]"
proof -
  have "[fields_length node..<fields_length node + section_count node]
        @ [section_count node + fields_length node..<section_count node + fields_length node + tab_count node]
      = [fields_length node..<fields_length node + section_count node + tab_count node]"
    using upt_add_eq_append [of "fields_length node" "fields_length node + section_count node" "tab_count node"]
    by (simp add: add.commute)
  then show ?thesis
    using normalFields_positions [OF assms]
    by (simp add: sections_positions tabs_positions)
qed

subsection \<open>Content references of singular fields\<close>

text \<open>
  A singular field whose type resolves to an object type, or to a union type with an AST
  node, outside the four sentinel names, is a content reference when every member type is
  tagged \<^verbatim>\<open>contentType\<close>.
\<close>

lemma singular_content_reference:
  assumes "schema (typeName type) = Some t"
    and "isObjectType t \<or> (\<exists>n ast. t = UnionType n (Some ast))"
    and "typeName type \<notin> {''StoryblokAsset'', ''StoryblokLink'', ''StoryblokSeo'', ''StoryblokTable''}"
    and "member_types schema t = Some ts"
    and "those ts = Some defs"
    and "list_all is_content_type defs"
  shows "toComponentField cc field type schema ctConfig =
           Inr (Stories ''option'' ''internal_stories'' (Some (member_names cc defs))
                  (opt_value (findStoryblokFieldValue field ''folder'')) True)"
  using assms
  by (cases t) (auto simp: toComponentField_def toReference_def)

subsection \<open>List arguments\<close>

lemma list_values_cases:
  "list_values n =
     (if present_not_list n then Inl TypeError
      else Inr (case n of None \<Rightarrow> None | Some v \<Rightarrow> values_of v))"
  by (auto simp: list_values_def present_not_list_def split: option.splits)

lemma list_values_absent: "list_values None = Inr None"
  by (simp add: list_values_def)

lemma list_values_list: "list_values (Some (ListValue vs)) = Inr (Some vs)"
  by (simp add: list_values_def)

subsection \<open>The mapping built by \<^verbatim>\<open>Object.fromEntries\<close>\<close>

lemma map_of_set_entry: "map_of (set_entry k v m) = (map_of m)(k \<mapsto> v)"
  by (induction m) (auto simp: fun_eq_iff)

lemma keys_set_entry:
  "map fst (set_entry k v m) = (if k \<in> set (map fst m) then map fst m else map fst m @ [k])"
  by (induction m) force+

lemma distinct_set_entry: "distinct (map fst m) \<Longrightarrow> distinct (map fst (set_entry k v m))"
  by (simp add: keys_set_entry)

lemma foldl_set_entry:
  "map_of (foldl (\<lambda>m (k, v). set_entry k v m) m0 es) = map_of (rev es @ m0)
   \<and> (distinct (map fst m0) \<longrightarrow> distinct (map fst (foldl (\<lambda>m (k, v). set_entry k v m) m0 es)))"
proof (induction es arbitrary: m0)
  case Nil
  then show ?case by simp
next
  case (Cons p es)
  obtain k v where p: "p = (k, v)" by (cases p)
  have "map_of (rev es @ set_entry k v m0) = map_of (rev (p # es) @ m0)"
    by (simp add: p map_of_set_entry map_add_def fun_eq_iff split: option.splits)
  then show ?case
    using Cons.IH [of "set_entry k v m0"] by (simp add: p distinct_set_entry)
qed

lemma fromEntries_map_of: "map_of (fromEntries es) = map_of (rev es)"
  using foldl_set_entry [of "[]" es] by (simp add: fromEntries_def)

lemma fromEntries_distinct: "distinct (map fst (fromEntries es))"
  using foldl_set_entry [of "[]" es] by (simp add: fromEntries_def)

lemma fromEntries_member:
  "(k, v) \<in> set (fromEntries es) \<longleftrightarrow> map_of (rev es) k = Some v"
  using fromEntries_distinct [of es] fromEntries_map_of [of es]
  by (metis map_of_eq_Some_iff)

subsection \<open>Names and values of the entries\<close>

lemma normalFields_names:
  assumes "normalFields cc node schema ctConfig = Inr es"
  shows "map fst es =
    map field_name (filter (\<lambda>f. hasDirective f ''storyblokField'') (fields_or_empty node))"
proof -
  let ?kept = "filter (\<lambda>f. hasDirective f ''storyblokField'') (fields_or_empty node)"
  have "list_all2 (\<lambda>p e. fst e = field_name (snd p)) (List.enumerate 0 ?kept) es"
    using normalFields_all2 [OF assms]
    by (rule list_all2_mono) (auto dest: toFieldEntry_Inr)
  then have "list_all2 (\<lambda>field e. fst e = field_name field) (map snd (List.enumerate 0 ?kept)) es"
    by (simp only: list_all2_map1)
  then have "list_all2 (\<lambda>field e. field_name field = fst e) ?kept es"
    by (simp add: eq_commute)
  then have "list_all2 (\<lambda>x y. x = y) (map field_name ?kept) (map fst es)"
    by (simp add: list_all2_map1 list_all2_map2)
  then show ?thesis
    by (simp add: list_all2_eq [symmetric])
qed

lemma normalFields_values:
  assumes "normalFields cc node schema ctConfig = Inr es" and "(k, v) \<in> set es"
  shows "\<exists>a. v = FieldValue a"
proof -
  have "list_all2 (\<lambda>p e. \<exists>a. snd e = FieldValue a)
     (List.enumerate 0 (filter (\<lambda>f. hasDirective f ''storyblokField'') (fields_or_empty node))) es"
    using normalFields_all2 [OF assms(1)]
    by (rule list_all2_mono) (auto dest: toFieldEntry_Inr)
  then have "\<forall>e \<in> set es. \<exists>a. snd e = FieldValue a"
    by (fastforce simp: list_all2_conv_all_nth in_set_conv_nth)
  then show ?thesis
    using assms(2) by force
qed

lemma group_values:
  "(k, v) \<in> set (sections cc node @ tabs cc node) \<Longrightarrow> \<exists>p g. v = GroupValue p g"
  by (auto simp: sections_def tabs_def split: option.splits)

lemma normalFields_filtered:
  "normalFields cc node schema ctConfig =
     normalFields cc
       (node\<lparr>node_fields :=
          map_option (filter (\<lambda>f. hasDirective f ''storyblokField'')) (node_fields node)\<rparr>)
       schema ctConfig"
  by (cases "node_fields node") (simp_all add: normalFields_def)

section \<open>The claims\<close>

text \<open>
  Claim C1 says that a singular field referencing a union whose every member is tagged
  \<^verbatim>\<open>type: universal\<close> is a content reference. On the schema with
  \<^verbatim>\<open>union Page = Article | Landing\<close>, both members tagged \<^verbatim>\<open>universal\<close>, the singular
  classifier returns the nested-component field, while the list classifier returns the
  content reference for the same union.
\<close>

theorem singular_universal_union_is_bloks:
  "toComponentField ascii_case page_field (NamedType ''Page'') universal_schema None =
     Inr (Bloks (Some [''article'', ''landing'']) True (Some (NumLit 0)) (Some (NumLit 1)))
   \<and> toArrayComponentField ascii_case pages_field (NamedType ''Page'') universal_schema None =
     Inr (Stories ''options'' ''internal_stories'' (Some [''article'', ''landing'']) None True)"
  by code_simp

text \<open>
  Claim C2 says that the positions of one type definition run 0, 1, 2, ... without a gap,
  also when a declared field is left out of the mapping. On the type \<^verbatim>\<open>Card\<close>, whose
  second field carries no directive, the only ordinary field has position 0 and the
  section has position 2: sections are numbered from the count of all declared fields.
\<close>

theorem card_positions_skip_one:
  "map_sum id (map (\<lambda>e. (fst e, position_of (snd e))))
     (toSchema ascii_case card_type universal_schema None) =
     Inr [(''title'', 0), (''sectionBasics'', 2)]"
  by code_simp

text \<open>
  Claim C3, amended: for a type definition with two fields both tagged \<^verbatim>\<open>tab: "Info"\<close>,
  one of which is also tagged \<^verbatim>\<open>section: "Basics"\<close>, the member-key list of the
  synthesized tab group holds the names of both fields, in declaration order, followed
  by the key of the synthesized section group. The field that belongs to the section is
  listed by name as well.
\<close>

theorem tab_keys_list_all_tab_fields:
  assumes "node_fields node = Some [f, g]"
    and "opt_value (findStoryblokFieldValue f ''tab'') = Some (JString ''Info'')"
    and "opt_value (findStoryblokFieldValue g ''tab'') = Some (JString ''Info'')"
    and "findStoryblokFieldValue f ''section'' = None"
    and "opt_value (findStoryblokFieldValue g ''section'') = Some (JString ''Basics'')"
  shows "toFieldGroupComponentField cc node ''tab'' (JString ''Info'') =
           FieldGroup ''tab'' (JString ''Info'')
             [field_name f, field_name g, camelCase cc ''section Basics'']
    \<and> toFieldGroupComponentField cc (node\<lparr>node_fields := Some [g, f]\<rparr>) ''tab'' (JString ''Info'') =
           FieldGroup ''tab'' (JString ''Info'')
             [field_name g, field_name f, camelCase cc ''section Basics'']
    \<and> map fst (sections cc node) = [camelCase cc ''section Basics'']"
proof -
  have g: "findStoryblokFieldValue g ''section'' \<noteq> None"
    using assms(5) by (auto simp: opt_value_def split: option.splits)
  have fs: "opt_value (findStoryblokFieldValue f ''section'') = None"
    using assms(4) by (simp add: opt_value_def)
  show ?thesis
    using assms g fs
    by (simp add: toFieldGroupComponentField_def fields_or_empty_def filter_uniqueBy_def
        sections_def getUniqueDirectiveProps_def filter_isValue_def List.map_filter_simps
        List.enumerate_simps)
qed

theorem tab_keys_list_all_tab_fields_witness:
  "node_fields profile_type = Some [name_field, bio_field]
   \<and> opt_value (findStoryblokFieldValue name_field ''tab'') = Some (JString ''Info'')
   \<and> opt_value (findStoryblokFieldValue bio_field ''tab'') = Some (JString ''Info'')
   \<and> findStoryblokFieldValue name_field ''section'' = None
   \<and> opt_value (findStoryblokFieldValue bio_field ''section'') = Some (JString ''Basics'')
   \<and> toFieldGroupComponentField ascii_case profile_type ''tab'' (JString ''Info'') =
       FieldGroup ''tab'' (JString ''Info'') [''name'', ''bio'', ''sectionBasics'']
   \<and> map fst (sections ascii_case profile_type) = [''sectionBasics'']"
proof -
  have h1: "node_fields profile_type = Some [name_field, bio_field]"
    by (simp add: profile_type_def sb_type_def)
  have h2: "opt_value (findStoryblokFieldValue name_field ''tab'') = Some (JString ''Info'')"
    by code_simp
  have h3: "opt_value (findStoryblokFieldValue bio_field ''tab'') = Some (JString ''Info'')"
    by code_simp
  have h4: "findStoryblokFieldValue name_field ''section'' = None"
    by code_simp
  have h5: "opt_value (findStoryblokFieldValue bio_field ''section'') = Some (JString ''Basics'')"
    by code_simp
  have k: "camelCase ascii_case ''section Basics'' = ''sectionBasics''"
    by code_simp
  have n: "field_name name_field = ''name''" "field_name bio_field = ''bio''"
    by (simp_all add: name_field_def bio_field_def sb_field_def)
  show ?thesis
    using tab_keys_list_all_tab_fields [OF h1 h2 h3 h4 h5, of ascii_case] h1 h2 h3 h4 h5
    by (simp add: k n)
qed

text \<open>
  Claim C3 as stated fails on the type \<^verbatim>\<open>Profile\<close>: the member-key list of the
  \<^verbatim>\<open>Info\<close> tab is not the name of the field without a section plus the section key; it
  also holds \<^verbatim>\<open>bio\<close>, the member of the \<^verbatim>\<open>Basics\<close> section.
\<close>

theorem info_tab_lists_section_member:
  "group_keys (toFieldGroupComponentField ascii_case profile_type ''tab'' (JString ''Info'')) =
     [''name'', ''bio'', ''sectionBasics'']
   \<and> group_keys (toFieldGroupComponentField ascii_case profile_type ''section'' (JString ''Basics'')) =
     [''bio'']
   \<and> ''bio'' \<in> set (group_keys
         (toFieldGroupComponentField ascii_case profile_type ''tab'' (JString ''Info'')))"
  by code_simp

text \<open>
  Claim C4, amended: for every list field whose element type is not an enum, object or
  union type of the graph and is not the resolved \<^verbatim>\<open>StoryblokAsset\<close> type, classification
  throws the unsupported-array-type error when the element type name is neither
  \<^verbatim>\<open>String\<close> nor \<^verbatim>\<open>CtTypeId\<close>. A list of \<^verbatim>\<open>String\<close> is an \<^verbatim>\<open>options\<close> field fed from
  the internal datasource when the field has a non-empty \<^verbatim>\<open>datasource\<close> argument, and
  throws a datasource-required error otherwise.
\<close>

theorem array_scalar_classification:
  assumes "unmapped_in_graph schema type"
  shows "(typeName type \<noteq> ''String'' \<and> typeName type \<noteq> ''CtTypeId'' \<longrightarrow>
            toArrayComponentField cc field type schema ctConfig =
              Inl (Error (''Unsupported array type '' @ typeName type)))
    \<and> (typeName type = ''String'' \<longrightarrow>
            toArrayComponentField cc field type schema ctConfig =
              (case if_truthy (opt_value (findStoryblokFieldValue field ''datasource'')) of
                 None \<Rightarrow> Inl (Error ''Datasource is required for type String'')
               | Some d \<Rightarrow> Inr (Datasource ''options'' d ''internal'' True)))"
  by (simp add: array_unmapped [OF assms] split: option.splits)

theorem array_scalar_classification_witness:
  "unmapped_in_graph universal_schema (NamedType ''Int'')
   \<and> toArrayComponentField ascii_case numbers_field (NamedType ''Int'') universal_schema None =
       Inl (Error ''Unsupported array type Int'')
   \<and> unmapped_in_graph universal_schema (NamedType ''String'')
   \<and> toArrayComponentField ascii_case numbers_field (NamedType ''String'') universal_schema None =
       Inl (Error ''Datasource is required for type String'')"
proof -
  have h1: "unmapped_in_graph universal_schema (NamedType ''Int'')"
    by code_simp
  have h2: "unmapped_in_graph universal_schema (NamedType ''String'')"
    by code_simp
  have d: "if_truthy (opt_value (findStoryblokFieldValue numbers_field ''datasource'')) = None"
    by code_simp
  show ?thesis
    using array_scalar_classification [OF h1, of ascii_case numbers_field None]
      array_scalar_classification [OF h2, of ascii_case numbers_field None] h1 h2
    by (simp add: d)
qed

text \<open>
  Claim C4 as stated fails on \<^verbatim>\<open>colors: [String] @storyblokField(datasource: "colors")\<close>:
  the list of \<^verbatim>\<open>String\<close> is classified, not rejected.
\<close>

theorem string_list_with_datasource_is_options:
  "classifyField ascii_case colors_field universal_schema None =
     Inr (Datasource ''options'' (JString ''colors'') ''internal'' True)"
  by code_simp

text \<open>
  Claim C5, amended: for every field of the \<^verbatim>\<open>CtTypeId\<close> type, singular or list, whose
  type name does not resolve to an enum, object or union type of the graph, classification
  without an integration configuration throws the error
  \<^verbatim>\<open>Commercetools config is required for type CtTypeId\<close>: the message names the type,
  not the field.
\<close>

theorem ct_missing_config_names_type:
  assumes "typeName (field_type field) = ''CtTypeId''"
    and "unmapped_in_graph schema (field_type field)"
  shows "classifyField cc field schema None =
           Inl (Error ''Commercetools config is required for type CtTypeId'')"
proof -
  let ?arr = "\<lambda>subType. toArrayComponentField cc field subType schema None"
  let ?one = "\<lambda>type. toComponentField cc field type schema None"
  obtain sub where sub: "typeName sub = typeName (field_type field)"
    and or: "switchArray (field_type field) ?arr ?one = ?arr sub
             \<or> switchArray (field_type field) ?arr ?one = ?one sub"
    using switchArray_cases [of "field_type field" ?arr ?one] by blast
  have un: "unmapped_in_graph schema sub"
    using assms(2) unmapped_typeName [OF sub] by simp
  have n: "typeName sub = ''CtTypeId''"
    using sub assms(1) by simp
  have a: "?arr sub = Inl (Error ''Commercetools config is required for type CtTypeId'')"
    using n by (simp add: array_unmapped [OF un])
  have b: "?one sub = Inl (Error ''Commercetools config is required for type CtTypeId'')"
    using un n by (simp add: singular_unmapped toScalarField_def)
  show ?thesis
    using or a b by (auto simp: classifyField_def)
qed

theorem ct_missing_config_names_type_witness:
  "typeName (field_type products_field) = ''CtTypeId''
   \<and> unmapped_in_graph universal_schema (field_type products_field)
   \<and> classifyField ascii_case products_field universal_schema None =
       Inl (Error ''Commercetools config is required for type CtTypeId'')"
proof -
  have h1: "typeName (field_type products_field) = ''CtTypeId''"
    by code_simp
  have h2: "unmapped_in_graph universal_schema (field_type products_field)"
    by code_simp
  show ?thesis
    using ct_missing_config_names_type [OF h1 h2, of ascii_case] h1 h2 by simp
qed

text \<open>
  Claim C5 as stated fails on \<^verbatim>\<open>product: CtTypeId @storyblokField\<close> without a
  configuration: the message of the error does not contain the field's name.
\<close>

theorem ct_error_omits_field_name:
  "classifyField ascii_case product_field universal_schema None =
     Inl (Error ''Commercetools config is required for type CtTypeId'')
   \<and> field_name product_field = ''product''
   \<and> \<not> sublist ''product'' ''Commercetools config is required for type CtTypeId''"
  by code_simp

text \<open>
  Claim C6, amended: take a singular \<^verbatim>\<open>String\<close> field whose type name resolves to no
  enum, object or union type of the graph and to no type named \<^verbatim>\<open>StoryblokAsset\<close>, with
  no non-empty \<^verbatim>\<open>datasource\<close> argument,
  a \<^verbatim>\<open>ctType\<close> other than \<^verbatim>\<open>category\<close>, \<^verbatim>\<open>format: richtext\<close>, and a \<^verbatim>\<open>blokTypes\<close>
  list naming at least one component. When its \<^verbatim>\<open>toolbar\<close> or its \<^verbatim>\<open>linkFeatures\<close>
  argument is present and is not a list, classification throws a \<^verbatim>\<open>TypeError\<close>.
  Otherwise the result is a \<^verbatim>\<open>richtext\<close> field whose \<^verbatim>\<open>restrict_components\<close> is true;
  when the field has a \<^verbatim>\<open>toolbar\<close> list, the produced toolbar contains the entry
  \<^verbatim>\<open>blok\<close>, and \<^verbatim>\<open>blok\<close> is its last entry whenever no listed toolbar entry already
  converts to \<^verbatim>\<open>blok\<close>; when the field has no \<^verbatim>\<open>toolbar\<close> argument, no toolbar list
  is produced.
\<close>

theorem richtext_with_blok_types:
  assumes "typeName type = ''String''"
    and "unmapped_in_graph schema type"
    and "if_truthy (opt_value (findStoryblokFieldValue field ''datasource'')) = None"
    and "opt_value (findStoryblokFieldValue field ''ctType'') \<noteq> Some (JString ''category'')"
    and "opt_value (findStoryblokFieldValue field ''format'') = Some (JString ''richtext'')"
    and "findStoryblokFieldValue field ''blokTypes'' = Some (ListValue bs)"
    and "string_names cc bs \<noteq> []"
  shows "(present_not_list (findStoryblokFieldValue field ''toolbar'')
            \<or> present_not_list (findStoryblokFieldValue field ''linkFeatures'') \<longrightarrow>
          toComponentField cc field type schema ctConfig = Inl TypeError)
    \<and> (\<not> present_not_list (findStoryblokFieldValue field ''toolbar'')
          \<and> \<not> present_not_list (findStoryblokFieldValue field ''linkFeatures'') \<longrightarrow>
        (\<exists>r. toComponentField cc field type schema ctConfig = Inr (Richtext r)
           \<and> restrict_components r = Some True
           \<and> (findStoryblokFieldValue field ''toolbar'' = None \<longrightarrow> toolbar r = None)
           \<and> (\<forall>ts. findStoryblokFieldValue field ''toolbar'' = Some (ListValue ts) \<longrightarrow>
                 (\<exists>tb. toolbar r = Some tb \<and> ''blok'' \<in> set tb
                    \<and> (''blok'' \<notin> set (filter_isValue (toolbar_names cc ts)) \<longrightarrow>
                         last tb = ''blok'')))))"
proof -
  have s: "toComponentField cc field type schema ctConfig = toRichtext cc field"
    using assms(1-5)
    by (simp add: singular_unmapped toScalarField_def toStringField_def toFormattedString_def)
  have bt: "list_values (findStoryblokFieldValue field ''blokTypes'') = Inr (Some bs)"
    using assms(6) by (simp add: list_values_def)
  have ne: "filter_uniqueBy (\<lambda>x. x) (string_names cc bs) \<noteq> []"
    using assms(7) by (rule filter_uniqueBy_nonempty)
  have bad: "toComponentField cc field type schema ctConfig = Inl TypeError"
    if "present_not_list (findStoryblokFieldValue field ''toolbar'')
        \<or> present_not_list (findStoryblokFieldValue field ''linkFeatures'')"
    using that s bt
    by (auto simp: toRichtext_def list_values_cases [of "findStoryblokFieldValue field ''toolbar''"]
        list_values_cases [of "findStoryblokFieldValue field ''linkFeatures''"])
  have good: "\<exists>r. toComponentField cc field type schema ctConfig = Inr (Richtext r)
           \<and> restrict_components r = Some True
           \<and> (findStoryblokFieldValue field ''toolbar'' = None \<longrightarrow> toolbar r = None)
           \<and> (\<forall>ts. findStoryblokFieldValue field ''toolbar'' = Some (ListValue ts) \<longrightarrow>
                 (\<exists>tb. toolbar r = Some tb \<and> ''blok'' \<in> set tb
                    \<and> (''blok'' \<notin> set (filter_isValue (toolbar_names cc ts)) \<longrightarrow>
                         last tb = ''blok'')))"
    if t: "\<not> present_not_list (findStoryblokFieldValue field ''toolbar'')"
      and l: "\<not> present_not_list (findStoryblokFieldValue field ''linkFeatures'')"
  proof -
    obtain lf where lf: "list_values (findStoryblokFieldValue field ''linkFeatures'') = Inr lf"
      using l by (simp add: list_values_cases)
    show ?thesis
    proof (cases "findStoryblokFieldValue field ''toolbar''")
      case None
      then show ?thesis
        using s bt lf by (simp add: toRichtext_def or_undefined_def list_values_absent)
    next
      case (Some v)
      then obtain ts where v: "v = ListValue ts"
        using t by (cases v) (simp_all add: present_not_list_def)
      let ?entries = "filter_isValue (toolbar_names cc ts)"
      let ?tb = "filter_uniqueBy (\<lambda>x. x) (?entries @ [''blok''])"
      have mem: "''blok'' \<in> set ?tb"
        by (simp add: filter_uniqueBy_def uniqueBy_from_set)
      have lst: "''blok'' \<notin> set ?entries \<Longrightarrow> last ?tb = ''blok''"
        by (simp add: filter_uniqueBy_def uniqueBy_from_last)
      show ?thesis
        using s bt lf Some v ne mem lst
        by (simp add: toRichtext_def or_undefined_def list_values_list
            filter_isValue_append filter_isValue_single)
    qed
  qed
  show ?thesis
    using bad good by blast
qed


theorem richtext_with_blok_types_witness:
  "unmapped_in_graph universal_schema (NamedType ''String'')
   \<and> string_names ascii_case [StringValue ''Teaser''] \<noteq> []
   \<and> (\<exists>r tb. toComponentField ascii_case body_toolbar_field (NamedType ''String'') universal_schema None =
          Inr (Richtext r)
        \<and> restrict_components r = Some True \<and> toolbar r = Some tb \<and> last tb = ''blok'')
   \<and> present_not_list (findStoryblokFieldValue body_links_field ''linkFeatures'')
   \<and> toComponentField ascii_case body_links_field (NamedType ''String'') universal_schema None =
        Inl TypeError"
proof -
  have h1: "typeName (NamedType ''String'') = ''String''"
    by simp
  have h2: "unmapped_in_graph universal_schema (NamedType ''String'')"
    by code_simp
  have h3: "if_truthy (opt_value (findStoryblokFieldValue body_toolbar_field ''datasource'')) = None"
    by code_simp
  have h4: "opt_value (findStoryblokFieldValue body_toolbar_field ''ctType'') \<noteq> Some (JString ''category'')"
    by code_simp
  have h5: "opt_value (findStoryblokFieldValue body_toolbar_field ''format'') = Some (JString ''richtext'')"
    by code_simp
  have h6: "findStoryblokFieldValue body_toolbar_field ''blokTypes'' = Some (ListValue [StringValue ''Teaser''])"
    by code_simp
  have h7: "string_names ascii_case [StringValue ''Teaser''] \<noteq> []"
    by code_simp
  have t: "findStoryblokFieldValue body_toolbar_field ''toolbar'' =
             Some (ListValue [EnumValue ''bold'', EnumValue ''italic''])"
    by code_simp
  have l: "findStoryblokFieldValue body_toolbar_field ''linkFeatures'' = None"
    by code_simp
  have fresh: "''blok'' \<notin> set (filter_isValue (toolbar_names ascii_case [EnumValue ''bold'', EnumValue ''italic'']))"
    by code_simp
  have g3: "if_truthy (opt_value (findStoryblokFieldValue body_links_field ''datasource'')) = None"
    by code_simp
  have g4: "opt_value (findStoryblokFieldValue body_links_field ''ctType'') \<noteq> Some (JString ''category'')"
    by code_simp
  have g5: "opt_value (findStoryblokFieldValue body_links_field ''format'') = Some (JString ''richtext'')"
    by code_simp
  have g6: "findStoryblokFieldValue body_links_field ''blokTypes'' = Some (ListValue [StringValue ''Teaser''])"
    by code_simp
  have bad: "present_not_list (findStoryblokFieldValue body_links_field ''linkFeatures'')"
    by code_simp
  have first: "\<exists>r tb. toComponentField ascii_case body_toolbar_field (NamedType ''String'') universal_schema None =
          Inr (Richtext r)
        \<and> restrict_components r = Some True \<and> toolbar r = Some tb \<and> last tb = ''blok''"
    using richtext_with_blok_types [OF h1 h2 h3 h4 h5 h6 h7, of None] t l fresh
    by (auto simp: present_not_list_def)
  have second: "toComponentField ascii_case body_links_field (NamedType ''String'') universal_schema None =
        Inl TypeError"
    using richtext_with_blok_types [OF h1 h2 g3 g4 g5 g6 h7, of None] bad
    by blast
  show ?thesis
    using h2 h7 first bad second by blast
qed

text \<open>
  Claim C6 as stated fails on
  \<^verbatim>\<open>body: String @storyblokField(format: "richtext", blokTypes: ["Teaser"])\<close>: without a
  \<^verbatim>\<open>toolbar\<close> argument the \<^verbatim>\<open>richtext\<close> field has no toolbar list at all.
\<close>

theorem richtext_without_toolbar_argument:
  "classifyField ascii_case body_field universal_schema None =
     Inr (Richtext \<lparr>rtl = None, max_length = None, customize_toolbar = None, toolbar = None,
        allow_target_blank = None, restrict_components = Some True,
        component_whitelist = Some [''teaser'']\<rparr>)"
  by code_simp

text \<open>
  Claim C7: every declared field that passes the \<^verbatim>\<open>storyblokField\<close> filter yields, in
  declaration order, an entry under its own name whose \<^verbatim>\<open>required\<close> attribute is true
  exactly when the kind of the field's type reference is \<^verbatim>\<open>NonNullType\<close>.
\<close>

theorem required_iff_non_null:
  assumes "normalFields cc node schema ctConfig = Inr es"
  shows "list_all2
           (\<lambda>field e. fst e = field_name field
              \<and> (\<exists>a. snd e = FieldValue a \<and> required a = isNonNullType (field_type field)))
           (filter (\<lambda>f. hasDirective f ''storyblokField'') (fields_or_empty node)) es"
proof -
  let ?kept = "filter (\<lambda>f. hasDirective f ''storyblokField'') (fields_or_empty node)"
  have "list_all2
          (\<lambda>p e. fst e = field_name (snd p)
             \<and> (\<exists>a. snd e = FieldValue a \<and> required a = isNonNullType (field_type (snd p))))
          (List.enumerate 0 ?kept) es"
    using normalFields_all2 [OF assms]
    by (rule list_all2_mono) (auto dest: toFieldEntry_Inr)
  then have "list_all2
          (\<lambda>field e. fst e = field_name field
             \<and> (\<exists>a. snd e = FieldValue a \<and> required a = isNonNullType (field_type field)))
          (map snd (List.enumerate 0 ?kept)) es"
    by (simp only: list_all2_map1)
  then show ?thesis
    by simp
qed

theorem required_iff_non_null_witness:
  "normalFields ascii_case card_type universal_schema None =
     Inr [(''title'', FieldValue
        \<lparr>position = 0, translatable = None, default_value = None, no_translate = None,
         display_name = JString ''Title'', required = True, description = None,
         component = Text None None None\<rparr>)]
   \<and> filter (\<lambda>f. hasDirective f ''storyblokField'') (fields_or_empty card_type) = [title_field]
   \<and> isNonNullType (field_type title_field)"
proof -
  have h: "normalFields ascii_case card_type universal_schema None =
     Inr [(''title'', FieldValue
        \<lparr>position = 0, translatable = None, default_value = None, no_translate = None,
         display_name = JString ''Title'', required = True, description = None,
         component = Text None None None\<rparr>)]"
    by code_simp
  have k: "filter (\<lambda>f. hasDirective f ''storyblokField'') (fields_or_empty card_type) = [title_field]"
    by (simp add: card_type_def sb_type_def fields_or_empty_def hasDirective_def
        title_field_def internalId_field_def sb_field_def)
  show ?thesis
    using required_iff_non_null [OF h] h k by simp
qed

text \<open>
  Claim C9: every configured string the integration option builders embed goes through
  \<^verbatim>\<open>maybeArg\<close> with no extra prefixes, and is embedded as a reference expression if and
  only if it starts with \<^verbatim>\<open>var.\<close> or \<^verbatim>\<open>local.\<close>; otherwise it is embedded as the
  unchanged literal.
\<close>

theorem integration_values_reference_iff_prefixed:
  "map snd (ctConnectionOptions c) =
     map (\<lambda>v. if prefix ''var.'' v \<or> prefix ''local.'' v then Arg v else Val (JString v))
       [endpoint c, clientId c, clientSecret c, locale' c]
   \<and> map snd (ctCategoryOptions c) =
     map (\<lambda>v. if prefix ''var.'' v \<or> prefix ''local.'' v then Arg v else Val (JString v))
       [projectKey c, clientId c, clientSecret c]
   \<and> (maybeArg v [] = Arg v) = (prefix ''var.'' v \<or> prefix ''local.'' v)
   \<and> (maybeArg v [] = Val (JString v)) = (\<not> (prefix ''var.'' v \<or> prefix ''local.'' v))"
  by (simp add: ctConnectionOptions_def ctCategoryOptions_def maybeArg_def)

theorem integration_values_reference_iff_prefixed_witness:
  "map snd (ctConnectionOptions demo_config) =
     [Arg ''var.ct_endpoint'', Arg ''local.client_id'', Val (JString ''s3cret''), Val (JString ''en-US'')]
   \<and> map snd (ctCategoryOptions demo_config) =
     [Val (JString ''shop''), Arg ''local.client_id'', Val (JString ''s3cret'')]"
  using integration_values_reference_iff_prefixed [of demo_config]
  by (simp add: demo_config_def)

text \<open>
  Claim C10, amended: when \<^verbatim>\<open>toSchema\<close> returns, the keys of its mapping are distinct,
  and the mapping holds an ordinary field entry under a name exactly when a declared
  field of that name carries the \<^verbatim>\<open>storyblokField\<close> directive and the name is not the
  key of a synthesized section or tab group (a group written under the same key replaces
  the field's entry). Fields without the directive are never classified: \<^verbatim>\<open>toSchema\<close>
  throws an error exactly when building the ordinary entries of the type definition
  with these fields removed throws it.
\<close>

theorem output_field_entries_iff_directive:
  "(toSchema cc node schema ctConfig = Inr m \<longrightarrow>
      distinct (map fst m)
      \<and> ((\<exists>a. (k, FieldValue a) \<in> set m) =
           ((\<exists>f \<in> set (fields_or_empty node). hasDirective f ''storyblokField'' \<and> field_name f = k)
            \<and> k \<notin> fst ` set (sections cc node @ tabs cc node))))
   \<and> ((toSchema cc node schema ctConfig = Inl e) =
        (normalFields cc
           (node\<lparr>node_fields :=
              map_option (filter (\<lambda>f. hasDirective f ''storyblokField'')) (node_fields node)\<rparr>)
           schema ctConfig = Inl e))"
proof -
  define G where "G = sections cc node @ tabs cc node"
  let ?kept = "filter (\<lambda>f. hasDirective f ''storyblokField'') (fields_or_empty node)"
  have err: "(toSchema cc node schema ctConfig = Inl e) =
        (normalFields cc
           (node\<lparr>node_fields :=
              map_option (filter (\<lambda>f. hasDirective f ''storyblokField'')) (node_fields node)\<rparr>)
           schema ctConfig = Inl e)"
    unfolding normalFields_filtered [symmetric]
    by (cases "normalFields cc node schema ctConfig") (simp_all add: toSchema_def)
  have ok: "distinct (map fst m)
      \<and> ((\<exists>a. (k, FieldValue a) \<in> set m) =
           ((\<exists>f \<in> set (fields_or_empty node). hasDirective f ''storyblokField'' \<and> field_name f = k)
            \<and> k \<notin> fst ` set G))"
    if h: "toSchema cc node schema ctConfig = Inr m"
  proof -
    obtain es where es: "normalFields cc node schema ctConfig = Inr es"
      and m: "m = fromEntries (es @ G)"
      using h
      by (cases "normalFields cc node schema ctConfig") (auto simp: toSchema_def G_def)
    have names: "fst ` set es = field_name ` set ?kept"
      using normalFields_names [OF es] by (metis set_map)
    have look: "map_of (rev (es @ G)) k =
        (case map_of (rev G) k of None \<Rightarrow> map_of (rev es) k | Some v \<Rightarrow> Some v)"
      by (simp add: map_add_def)
    have member: "(k, v) \<in> set m \<longleftrightarrow> map_of (rev (es @ G)) k = Some v" for v
      unfolding m by (rule fromEntries_member)
    have lhs: "(\<exists>a. (k, FieldValue a) \<in> set m) = (k \<in> fst ` set es \<and> k \<notin> fst ` set G)"
    proof (cases "map_of (rev G) k")
      case None
      then have notin: "k \<notin> fst ` set G"
        by (metis map_of_eq_None_iff set_rev)
      show ?thesis
      proof (cases "map_of (rev es) k")
        case n: None
        then have "k \<notin> fst ` set es"
          by (metis map_of_eq_None_iff set_rev)
        then show ?thesis
          unfolding member look None n by simp
      next
        case (Some v)
        then have mem: "(k, v) \<in> set es"
          by (metis map_of_SomeD set_rev)
        then obtain a where a: "v = FieldValue a"
          using normalFields_values [OF es] by blast
        have "k \<in> fst ` set es"
          using mem by force
        then show ?thesis
          unfolding member look None Some using a notin by simp
      qed
    next
      case (Some v)
      then have mem: "(k, v) \<in> set G"
        by (metis map_of_SomeD set_rev)
      then obtain p g where g: "v = GroupValue p g"
        using group_values unfolding G_def by blast
      have "k \<in> fst ` set G"
        using mem by force
      then show ?thesis
        unfolding member look Some using g by simp
    qed
    have "(k \<in> fst ` set es) =
        (\<exists>f \<in> set (fields_or_empty node). hasDirective f ''storyblokField'' \<and> field_name f = k)"
      unfolding names by auto
    then show ?thesis
      using lhs by (simp add: m fromEntries_distinct)
  qed
  show ?thesis
    using ok err unfolding G_def by blast
qed

theorem output_field_entries_iff_directive_witness:
  "toSchema ascii_case card_type universal_schema None =
     Inr [(''title'', FieldValue
        \<lparr>position = 0, translatable = None, default_value = None, no_translate = None,
         display_name = JString ''Title'', required = True, description = None,
         component = Text None None None\<rparr>),
       (''sectionBasics'', GroupValue 2 (FieldGroup ''section'' (JString ''Basics'') [''title'']))]
   \<and> hasDirective title_field ''storyblokField''
   \<and> ''title'' \<notin> fst ` set (sections ascii_case card_type @ tabs ascii_case card_type)
   \<and> \<not> hasDirective internalId_field ''storyblokField''
   \<and> classifyField ascii_case internalId_field universal_schema None =
       Inl (Error ''Unsupported type ID'')"
proof -
  let ?m = "[(''title'', FieldValue
        \<lparr>position = 0, translatable = None, default_value = None, no_translate = None,
         display_name = JString ''Title'', required = True, description = None,
         component = Text None None None\<rparr>),
       (''sectionBasics'', GroupValue 2 (FieldGroup ''section'' (JString ''Basics'') [''title'']))]"
  have h: "toSchema ascii_case card_type universal_schema None = Inr ?m"
    by code_simp
  have t: "hasDirective title_field ''storyblokField''"
    by (simp add: hasDirective_def title_field_def sb_field_def)
  have d: "\<not> hasDirective internalId_field ''storyblokField''"
    by (simp add: hasDirective_def internalId_field_def)
  have c: "classifyField ascii_case internalId_field universal_schema None =
       Inl (Error ''Unsupported type ID'')"
    by code_simp
  have "(\<exists>a. (''title'', FieldValue a) \<in> set ?m) =
           ((\<exists>f \<in> set (fields_or_empty card_type). hasDirective f ''storyblokField'' \<and> field_name f = ''title'')
            \<and> ''title'' \<notin> fst ` set (sections ascii_case card_type @ tabs ascii_case card_type))"
    using output_field_entries_iff_directive
      [of ascii_case card_type universal_schema None ?m "''title''"] h
    by blast
  then have "''title'' \<notin> fst ` set (sections ascii_case card_type @ tabs ascii_case card_type)"
    by auto
  then show ?thesis
    using h t d c by simp
qed

text \<open>
  Claim C10 as stated fails on the type \<^verbatim>\<open>Clash\<close>: its first field carries the
  directive, but the mapping holds the section group under the field's name and no
  ordinary entry for the field.
\<close>

theorem clash_field_has_no_entry:
  "hasDirective flag_field ''storyblokField''
   \<and> field_name flag_field = ''sectionBasics''
   \<and> node_fields clash_type = Some [flag_field, a_field]
   \<and> toSchema ascii_case clash_type universal_schema None =
       Inr [(''sectionBasics'', GroupValue 2 (FieldGroup ''section'' (JString ''Basics'') [''a''])),
            (''a'', FieldValue
               \<lparr>position = 1, translatable = None, default_value = None, no_translate = None,
                display_name = JString ''A'', required = False, description = None,
                component = Text None None None\<rparr>)]"
  by code_simp

end
